theory Spec2Isabelle
  imports Complex_Main "HOL-Library.Sublist"
begin

section \<open>Python strings\<close>

text \<open>
  The program is Python. Its strings are modelled as \<open>string\<close> (a list of \<open>char\<close>), one
  \<open>char\<close> per code point; the model therefore covers the code points 0 to 255, and within
  that range the predicates below are those of CPython 3.11 (\<open>str.isspace\<close>, \<open>str.lower\<close>,
  the class \<open>\w\<close> of the module \<open>re\<close>).
\<close>

definition ord :: "char \<Rightarrow> nat" where
  "ord c = of_char c"

definition chr :: "nat \<Rightarrow> char" where
  "chr n = char_of n"

text \<open>\<open>str.isspace\<close> on one character: tab to carriage return, the separators FS, GS, RS and
  US, the space, NEL and the no-break space.\<close>

definition py_isspace :: "char \<Rightarrow> bool" where
  "py_isspace c = (let n = ord c in (9 \<le> n \<and> n \<le> 13) \<or> (28 \<le> n \<and> n \<le> 32) \<or> n = 133 \<or> n = 160)"

text \<open>\<open>s.strip()\<close>: whitespace removed at both ends.\<close>

definition lstrip :: "string \<Rightarrow> string" where
  "lstrip s = dropWhile py_isspace s"

definition rstrip :: "string \<Rightarrow> string" where
  "rstrip s = rev (dropWhile py_isspace (rev s))"

definition strip :: "string \<Rightarrow> string" where
  "strip s = rstrip (lstrip s)"

text \<open>\<open>not s.strip()\<close>: the string is empty or whitespace only.\<close>

definition blank :: "string \<Rightarrow> bool" where
  "blank s = (strip s = [])"

definition lower_char :: "char \<Rightarrow> char" where
  "lower_char c = (let n = ord c in
     if (65 \<le> n \<and> n \<le> 90) \<or> (192 \<le> n \<and> n \<le> 214) \<or> (216 \<le> n \<and> n \<le> 222)
     then chr (n + 32) else c)"

definition lower :: "string \<Rightarrow> string" where
  "lower s = map lower_char s"

text \<open>\<open>text.startswith(p)\<close>, \<open>text.find(p)\<close> (\<open>None\<close> for Python's \<open>-1\<close>) and \<open>p in text\<close>.\<close>

fun starts_with :: "string \<Rightarrow> string \<Rightarrow> bool" where
  "starts_with s [] = True"
| "starts_with [] (p # ps) = False"
| "starts_with (c # cs) (p # ps) = (c = p \<and> starts_with cs ps)"

fun py_find :: "string \<Rightarrow> string \<Rightarrow> nat option" where
  "py_find p [] = (if p = [] then Some 0 else None)"
| "py_find p (c # cs) =
     (if starts_with (c # cs) p then Some 0 else map_option Suc (py_find p cs))"

definition py_in :: "string \<Rightarrow> string \<Rightarrow> bool" where
  "py_in p s = (py_find p s \<noteq> None)"

text \<open>\<open>s.replace(old, new)\<close> for a non-empty \<open>old\<close>: the occurrences are replaced from left
  to right without overlap. The counter is the number of characters of a replaced occurrence
  still to be skipped.\<close>

fun replace_from :: "nat \<Rightarrow> string \<Rightarrow> string \<Rightarrow> string \<Rightarrow> string" where
  "replace_from k old new [] = []"
| "replace_from k old new (c # cs) =
     (if 0 < k then replace_from (k - 1) old new cs
      else if starts_with (c # cs) old then new @ replace_from (length old - 1) old new cs
      else c # replace_from 0 old new cs)"

definition py_replace :: "string \<Rightarrow> string \<Rightarrow> string \<Rightarrow> string" where
  "py_replace s old new = replace_from 0 old new s"

text \<open>\<open>sep.join(xs)\<close>.\<close>

fun join :: "string \<Rightarrow> string list \<Rightarrow> string" where
  "join sep [] = []"
| "join sep [x] = x"
| "join sep (x # y # ys) = x @ sep @ join sep (y # ys)"

text \<open>\<open>str(n)\<close> for an integer: its decimal digits.\<close>

fun digits_of :: "nat \<Rightarrow> nat \<Rightarrow> string" where
  "digits_of 0 n = []"
| "digits_of (Suc f) n =
     (if n < 10 then [chr (48 + n)] else digits_of f (n div 10) @ [chr (48 + n mod 10)])"

definition str_of_int :: "int \<Rightarrow> string" where
  "str_of_int i = (if i < 0 then CHR ''-'' # digits_of (Suc (nat (- i))) (nat (- i))
                   else digits_of (Suc (nat i)) (nat i))"

section \<open>Python values and \<open>json.loads\<close>\<close>

text \<open>
  The values \<open>json.loads\<close> returns. A finite float is the rational number it denotes; the
  decoder keeps the exact value of the literal (rounding to a double, by which Python turns
  a literal below the smallest subnormal into \<open>0.0\<close> and one above the largest double into
  \<open>inf\<close>, is not applied). A dictionary is the list of its items in source order; a later
  item with the same key wins.
\<close>

datatype pyfloat = Finite rat | NaN | PosInf | NegInf

datatype pyval =
    PNone
  | PBool bool
  | PInt int
  | PFloat pyfloat
  | PStr string
  | PList "pyval list"
  | PDict "(string \<times> pyval) list"

text \<open>\<open>bool(v)\<close>.\<close>

fun truthy :: "pyval \<Rightarrow> bool" where
  "truthy PNone = False"
| "truthy (PBool b) = b"
| "truthy (PInt i) = (i \<noteq> 0)"
| "truthy (PFloat (Finite q)) = (q \<noteq> 0)"
| "truthy (PFloat NaN) = True"
| "truthy (PFloat PosInf) = True"
| "truthy (PFloat NegInf) = True"
| "truthy (PStr s) = (s \<noteq> [])"
| "truthy (PList xs) = (xs \<noteq> [])"
| "truthy (PDict kvs) = (kvs \<noteq> [])"

text \<open>\<open>d.get(k, default)\<close> on a dictionary.\<close>

definition dict_get :: "(string \<times> pyval) list \<Rightarrow> string \<Rightarrow> pyval \<Rightarrow> pyval" where
  "dict_get kvs k dflt = (case map_of (rev kvs) k of None \<Rightarrow> dflt | Some v \<Rightarrow> v)"

subsection \<open>Tokens\<close>

datatype token = TLBrace | TRBrace | TLBrack | TRBrack | TComma | TColon | TAtom pyval

definition is_digit :: "char \<Rightarrow> bool" where
  "is_digit c = (48 \<le> ord c \<and> ord c \<le> 57)"

definition is_hex :: "char \<Rightarrow> bool" where
  "is_hex c = (let n = ord c in (48 \<le> n \<and> n \<le> 57) \<or> (65 \<le> n \<and> n \<le> 70) \<or> (97 \<le> n \<and> n \<le> 102))"

definition hex_val :: "char \<Rightarrow> nat" where
  "hex_val c = (let n = ord c in if n \<le> 57 then n - 48 else if n \<le> 70 then n - 55 else n - 87)"

definition json_ws :: "char \<Rightarrow> bool" where
  "json_ws c = (c = CHR '' '' \<or> ord c = 9 \<or> ord c = 10 \<or> ord c = 13)"

definition nat_of_digits :: "string \<Rightarrow> nat" where
  "nat_of_digits ds = foldl (\<lambda>a c. 10 * a + (ord c - 48)) 0 ds"

text \<open>A code point of a \<open>\uXXXX\<close> escape above 255 has no \<open>char\<close>; it is decoded to one
  question mark, so that the decoded string keeps its length.\<close>

definition char_of_codepoint :: "nat \<Rightarrow> char" where
  "char_of_codepoint n = (if n < 256 then chr n else CHR ''?'')"

definition hex4 :: "char \<Rightarrow> char \<Rightarrow> char \<Rightarrow> char \<Rightarrow> nat" where
  "hex4 a b c d = ((hex_val a * 16 + hex_val b) * 16 + hex_val c) * 16 + hex_val d"

text \<open>The escape after a backslash: the decoded character and how many characters of the
  input it takes (the backslash not counted), or \<open>None\<close> when the escape is invalid. A high
  surrogate followed by an escaped low surrogate is one character.\<close>

definition scan_escape :: "string \<Rightarrow> (char \<times> nat) option" where
  "scan_escape s = (case s of
       [] \<Rightarrow> None
     | e # r \<Rightarrow>
        if e = CHR ''\"'' \<or> e = CHR 0x5C \<or> e = CHR ''/'' then Some (e, 1)
        else if e = CHR ''b'' then Some (chr 8, 1)
        else if e = CHR ''f'' then Some (chr 12, 1)
        else if e = CHR ''n'' then Some (chr 10, 1)
        else if e = CHR ''r'' then Some (chr 13, 1)
        else if e = CHR ''t'' then Some (chr 9, 1)
        else if e = CHR ''u'' then
          (case r of
             a # b # c # d # r' \<Rightarrow>
               if is_hex a \<and> is_hex b \<and> is_hex c \<and> is_hex d then
                 (let hi = hex4 a b c d in
                  if 0xD800 \<le> hi \<and> hi \<le> 0xDBFF then
                    (case r' of
                       bs # u # a' # b' # c' # d' # _ \<Rightarrow>
                         if bs = CHR 0x5C \<and> u = CHR ''u'' \<and> is_hex a' \<and> is_hex b' \<and> is_hex c'
                            \<and> is_hex d' \<and> 0xDC00 \<le> hex4 a' b' c' d' \<and> hex4 a' b' c' d' \<le> 0xDFFF
                         then Some (CHR ''?'', 11)
                         else Some (CHR ''?'', 5)
                     | _ \<Rightarrow> Some (CHR ''?'', 5))
                  else Some (char_of_codepoint hi, 5))
               else None
           | _ \<Rightarrow> None)
        else None)"

text \<open>The body of a string literal, after its opening quote: the decoded string and the
  input after the closing quote. The counter is the number of characters of an escape still
  to be skipped. A control character inside a literal is an error (\<open>strict\<close> decoding).\<close>

fun scan_string :: "nat \<Rightarrow> string \<Rightarrow> (string \<times> string) option" where
  "scan_string k [] = None"
| "scan_string k (c # cs) =
     (if 0 < k then scan_string (k - 1) cs
      else if c = CHR ''\"'' then Some ([], cs)
      else if c = CHR 0x5C then
        (case scan_escape cs of
           None \<Rightarrow> None
         | Some (d, n) \<Rightarrow> map_option (\<lambda>(v, rest). (d # v, rest)) (scan_string n cs))
      else if ord c < 32 then None
      else map_option (\<lambda>(v, rest). (c # v, rest)) (scan_string 0 cs))"

text \<open>A number literal, \<open>-?(0|[1-9]\d*)(\.\d+)?([eE][-+]?\d+)?\<close>, matched at the start of the
  input: an \<open>int\<close> when it has neither fraction nor exponent, a \<open>float\<close> otherwise.\<close>

definition scan_int_part :: "string \<Rightarrow> (string \<times> string) option" where
  "scan_int_part s = (case s of
       [] \<Rightarrow> None
     | c # r \<Rightarrow> if c = CHR ''0'' then Some ([c], r)
                else if is_digit c then Some (takeWhile is_digit s, dropWhile is_digit s)
                else None)"

definition scan_frac :: "string \<Rightarrow> (string \<times> string) option" where
  "scan_frac s = (case s of
       c # d # r \<Rightarrow> if c = CHR ''.'' \<and> is_digit d
                    then Some (takeWhile is_digit (d # r), dropWhile is_digit (d # r)) else None
     | _ \<Rightarrow> None)"

definition scan_exp :: "string \<Rightarrow> (int \<times> string) option" where
  "scan_exp s = (case s of
       e # r \<Rightarrow>
         if e = CHR ''e'' \<or> e = CHR ''E'' then
           (case r of
              g # r' \<Rightarrow>
                if (g = CHR ''+'' \<or> g = CHR ''-'') \<and> r' \<noteq> [] \<and> is_digit (hd r') then
                  Some ((if g = CHR ''-'' then - 1 else 1) * int (nat_of_digits (takeWhile is_digit r')),
                        dropWhile is_digit r')
                else if is_digit g then
                  Some (int (nat_of_digits (takeWhile is_digit r)), dropWhile is_digit r)
                else None
            | [] \<Rightarrow> None)
         else None
     | [] \<Rightarrow> None)"

definition pow10 :: "int \<Rightarrow> rat" where
  "pow10 e = (if 0 \<le> e then 10 ^ nat e else 1 / 10 ^ nat (- e))"

definition scan_number :: "string \<Rightarrow> (pyval \<times> string) option" where
  "scan_number s =
     (let neg = (s \<noteq> [] \<and> hd s = CHR ''-'');
          s1 = (if neg then tl s else s)
      in case scan_int_part s1 of
           None \<Rightarrow> None
         | Some (ip, s2) \<Rightarrow>
            (let fr = scan_frac s2;
                 s3 = (case fr of None \<Rightarrow> s2 | Some (_, r) \<Rightarrow> r);
                 ex = scan_exp s3;
                 s4 = (case ex of None \<Rightarrow> s3 | Some (_, r) \<Rightarrow> r)
             in if fr = None \<and> ex = None
                then Some (PInt ((if neg then - 1 else 1) * int (nat_of_digits ip)), s4)
                else
                  (let fd = (case fr of None \<Rightarrow> [] | Some (d, _) \<Rightarrow> d);
                       e = (case ex of None \<Rightarrow> 0 | Some (n, _) \<Rightarrow> n);
                       m = of_nat (nat_of_digits (ip @ fd)) * pow10 (e - int (length fd))
                   in Some (PFloat (Finite (if neg then - m else m)), s4))))"

text \<open>The scanner of the decoder: whitespace between tokens is a space, a tab, a line feed or
  a carriage return; the constants are \<open>null\<close>, \<open>true\<close>, \<open>false\<close> and, as Python accepts
  them, \<open>NaN\<close>, \<open>Infinity\<close> and \<open>-Infinity\<close>. The counter is the number of characters of
  the token just read that are still to be skipped.\<close>

fun tokenize :: "nat \<Rightarrow> string \<Rightarrow> token list option" where
  "tokenize k [] = Some []"
| "tokenize k (c # cs) =
     (if 0 < k then tokenize (k - 1) cs
      else if json_ws c then tokenize 0 cs
      else if c = CHR ''{'' then map_option ((#) TLBrace) (tokenize 0 cs)
      else if c = CHR ''}'' then map_option ((#) TRBrace) (tokenize 0 cs)
      else if c = CHR ''['' then map_option ((#) TLBrack) (tokenize 0 cs)
      else if c = CHR '']'' then map_option ((#) TRBrack) (tokenize 0 cs)
      else if c = CHR '','' then map_option ((#) TComma) (tokenize 0 cs)
      else if c = CHR '':'' then map_option ((#) TColon) (tokenize 0 cs)
      else if c = CHR ''\"'' then
        (case scan_string 0 cs of
           None \<Rightarrow> None
         | Some (v, rest) \<Rightarrow>
             map_option ((#) (TAtom (PStr v))) (tokenize (length cs - length rest) cs))
      else if starts_with (c # cs) ''null'' then
        map_option ((#) (TAtom PNone)) (tokenize 3 cs)
      else if starts_with (c # cs) ''true'' then
        map_option ((#) (TAtom (PBool True))) (tokenize 3 cs)
      else if starts_with (c # cs) ''false'' then
        map_option ((#) (TAtom (PBool False))) (tokenize 4 cs)
      else if starts_with (c # cs) ''NaN'' then
        map_option ((#) (TAtom (PFloat NaN))) (tokenize 2 cs)
      else if starts_with (c # cs) ''Infinity'' then
        map_option ((#) (TAtom (PFloat PosInf))) (tokenize 7 cs)
      else if starts_with (c # cs) ''-Infinity'' then
        map_option ((#) (TAtom (PFloat NegInf))) (tokenize 8 cs)
      else
        (case scan_number (c # cs) of
           None \<Rightarrow> None
         | Some (v, rest) \<Rightarrow> map_option ((#) (TAtom v)) (tokenize (length cs - length rest) cs)))"

subsection \<open>The decoder\<close>

text \<open>The decoder reads the tokens from left to right with a stack of the containers that
  are open: an array with the elements read so far, an object with its items and the key
  that waits for its value.\<close>

datatype frame = FArr "pyval list" | FObj "(string \<times> pyval) list" "string option"

datatype pmode =
    WantValue
  | WantValueOrClose
  | WantKey
  | WantKeyOrClose
  | WantColon
  | WantCommaOrClose
  | Finished pyval

fun deliver :: "pyval \<Rightarrow> frame list \<Rightarrow> (pmode \<times> frame list) option" where
  "deliver v [] = Some (Finished v, [])"
| "deliver v (FArr xs # st) = Some (WantCommaOrClose, FArr (xs @ [v]) # st)"
| "deliver v (FObj kvs (Some k) # st) = Some (WantCommaOrClose, FObj (kvs @ [(k, v)]) None # st)"
| "deliver v (FObj kvs None # st) = None"

fun value_token :: "token \<Rightarrow> frame list \<Rightarrow> (pmode \<times> frame list) option" where
  "value_token (TAtom v) st = deliver v st"
| "value_token TLBrack st = Some (WantValueOrClose, FArr [] # st)"
| "value_token TLBrace st = Some (WantKeyOrClose, FObj [] None # st)"
| "value_token _ st = None"

fun key_token :: "token \<Rightarrow> frame list \<Rightarrow> (pmode \<times> frame list) option" where
  "key_token (TAtom (PStr k)) (FObj kvs None # st) = Some (WantColon, FObj kvs (Some k) # st)"
| "key_token _ _ = None"

fun close_token :: "token \<Rightarrow> frame list \<Rightarrow> (pmode \<times> frame list) option" where
  "close_token TRBrack (FArr xs # st) = deliver (PList xs) st"
| "close_token TRBrace (FObj kvs None # st) = deliver (PDict kvs) st"
| "close_token _ _ = None"

fun parse_step :: "pmode \<times> frame list \<Rightarrow> token \<Rightarrow> (pmode \<times> frame list) option" where
  "parse_step (WantValue, st) t = value_token t st"
| "parse_step (WantValueOrClose, st) t =
     (if t = TRBrack then close_token t st else value_token t st)"
| "parse_step (WantKey, st) t = key_token t st"
| "parse_step (WantKeyOrClose, st) t =
     (if t = TRBrace then close_token t st else key_token t st)"
| "parse_step (WantColon, st) t = (if t = TColon then Some (WantValue, st) else None)"
| "parse_step (WantCommaOrClose, st) t =
     (if t = TComma then
        (case st of
           FArr _ # _ \<Rightarrow> Some (WantValue, st)
         | FObj _ _ # _ \<Rightarrow> Some (WantKey, st)
         | [] \<Rightarrow> None)
      else close_token t st)"
| "parse_step (Finished v, st) t = None"

fun parse_tokens :: "pmode \<times> frame list \<Rightarrow> token list \<Rightarrow> (pmode \<times> frame list) option" where
  "parse_tokens p [] = Some p"
| "parse_tokens p (t # ts) =
     (case parse_step p t of None \<Rightarrow> None | Some p' \<Rightarrow> parse_tokens p' ts)"

text \<open>\<open>json.loads(s)\<close>: the decoded value, or \<open>None\<close> where Python raises
  \<open>json.JSONDecodeError\<close>. The limits of the interpreter (recursion depth, the length of an
  integer literal) are outside the model.\<close>

definition json_loads :: "string \<Rightarrow> pyval option" where
  "json_loads s =
     (case tokenize 0 s of
        None \<Rightarrow> None
      | Some ts \<Rightarrow>
         (case parse_tokens (WantValue, []) ts of
            Some (Finished v, _) \<Rightarrow> Some v
          | _ \<Rightarrow> None))"

section \<open>Completion rules (\<open>evaluation.py\<close>)\<close>

text \<open>
  The regular expression engine is a library, not part of the program: \<open>re_search\<close> stands
  for \<open>bool(re.search(pattern, text, re.DOTALL))\<close>, with \<open>None\<close> where the pattern does not
  compile and \<open>re.error\<close> is raised. It is a parameter of every definition that reaches the
  rule \<open>regex\<close>.
\<close>

type_synonym regex_engine = "string \<Rightarrow> string \<Rightarrow> bool option"

text \<open>\<open>x or ""\<close> for an optional string.\<close>

definition or_empty :: "string option \<Rightarrow> string" where
  "or_empty x = (case x of None \<Rightarrow> [] | Some s \<Rightarrow> s)"

definition rule_contains :: "string \<Rightarrow> string \<Rightarrow> bool" where
  "rule_contains text v = (v \<noteq> [] \<and> text \<noteq> [] \<and> py_in v text)"

definition rule_regex :: "regex_engine \<Rightarrow> string \<Rightarrow> string \<Rightarrow> bool" where
  "rule_regex re text pattern =
     (if text = [] \<or> pattern = [] then False
      else (case re pattern text of None \<Rightarrow> False | Some b \<Rightarrow> b))"

definition rule_json_valid :: "string \<Rightarrow> string \<Rightarrow> bool" where
  "rule_json_valid text u = (if text = [] then False else json_loads text \<noteq> None)"

definition rule_code_block_present :: "string \<Rightarrow> string \<Rightarrow> bool" where
  "rule_code_block_present text u = (text \<noteq> [] \<and> py_in ''```'' text)"

text \<open>The table \<open>RULE_HANDLERS\<close>, and \<open>RULE_HANDLERS.get\<close> as its lookup.\<close>

definition RULE_HANDLERS :: "regex_engine \<Rightarrow> (string \<times> (string \<Rightarrow> string \<Rightarrow> bool)) list" where
  "RULE_HANDLERS re =
     [(''contains'', rule_contains),
      (''regex'', rule_regex re),
      (''json_valid'', rule_json_valid),
      (''code_block_present'', rule_code_block_present)]"

definition evaluate_rule :: "regex_engine \<Rightarrow> string \<Rightarrow> string option \<Rightarrow> string option \<Rightarrow> bool \<times> string" where
  "evaluate_rule re rule_type rule_value output =
     (case map_of (RULE_HANDLERS re) rule_type of
        None \<Rightarrow> (False, ''Unknown rule type: '' @ rule_type)
      | Some handler \<Rightarrow>
          (let passed = handler (or_empty output) (or_empty rule_value)
           in (passed, ''Rule '' @ [CHR 0x27] @ rule_type @ [CHR 0x27, CHR '' '']
                         @ (if passed then ''passed'' else ''failed''))))"

section \<open>Context extraction (\<open>context_extractor.py\<close>)\<close>

text \<open>The class \<open>\w\<close>: letters, digits and the underscore.\<close>

definition is_word :: "char \<Rightarrow> bool" where
  "is_word c = (let n = ord c in
     (48 \<le> n \<and> n \<le> 57) \<or> (65 \<le> n \<and> n \<le> 90) \<or> n = 95 \<or> (97 \<le> n \<and> n \<le> 122)
     \<or> n = 170 \<or> n = 178 \<or> n = 179 \<or> n = 181 \<or> n = 185 \<or> n = 186
     \<or> (188 \<le> n \<and> n \<le> 190) \<or> (192 \<le> n \<and> n \<le> 214) \<or> (216 \<le> n \<and> n \<le> 246) \<or> 248 \<le> n)"

definition fence :: string where
  "fence = ''```''"

definition newline :: char where
  "newline = CHR 0x0A"

text \<open>
  The pattern of \<open>extract_code_blocks\<close> is a fence, \<open>(?:\w+)?\<close>, \<open>\n?\<close>, a lazy group
  \<open>(.*?)\<close> that also matches line ends, and a fence. \<open>block_body\<close> matches what follows an
  opening fence: the longest run of word characters and one line feed are taken (they hold
  no backquote, so giving them back never finds another closing fence), and the group ends
  at the first fence after them. The result is the group and the input after the closing
  fence.
\<close>

definition block_body :: "string \<Rightarrow> (string \<times> string) option" where
  "block_body s =
     (let s1 = dropWhile is_word s;
          s2 = (case s1 of [] \<Rightarrow> s1 | c # r \<Rightarrow> if c = newline then r else s1)
      in case py_find fence s2 of
           None \<Rightarrow> None
         | Some q \<Rightarrow> Some (take q s2, drop (q + 3) s2))"

text \<open>\<open>re.findall\<close> with this pattern: the matches from left to right, without overlap, each
  given by its group. The counter is the number of characters of the last match still to
  be skipped.\<close>

fun find_blocks :: "nat \<Rightarrow> string \<Rightarrow> string list" where
  "find_blocks k [] = []"
| "find_blocks k (c # cs) =
     (if 0 < k then find_blocks (k - 1) cs
      else if starts_with (c # cs) fence then
        (case block_body (drop 2 cs) of
           None \<Rightarrow> find_blocks 0 cs
         | Some (g, rest) \<Rightarrow> g # find_blocks (length cs - length rest) cs)
      else find_blocks 0 cs)"

definition extract_code_blocks :: "string \<Rightarrow> string" where
  "extract_code_blocks text =
     (let blocks = find_blocks 0 text
      in if blocks \<noteq> [] then join [newline, newline] (map strip blocks) else [])"

text \<open>
  The inner loop of \<open>extract_json\<close>, from the first opening character on: \<open>t\<close> is the text
  from that character, \<open>n\<close> the number of characters read, \<open>depth\<close> the counter, which is a
  Python integer and may fall below zero. A candidate that does not decode does not stop
  the loop.
\<close>

fun scan_span :: "char \<Rightarrow> char \<Rightarrow> string \<Rightarrow> int \<Rightarrow> nat \<Rightarrow> string \<Rightarrow> string option" where
  "scan_span sc ec t depth n [] = None"
| "scan_span sc ec t depth n (c # cs) =
     (if c = sc then scan_span sc ec t (depth + 1) (Suc n) cs
      else if c = ec then
        (if depth - 1 = 0 \<and> json_loads (take (Suc n) t) \<noteq> None then Some (take (Suc n) t)
         else scan_span sc ec t (depth - 1) (Suc n) cs)
      else scan_span sc ec t depth (Suc n) cs)"

definition extract_json_with :: "char \<Rightarrow> char \<Rightarrow> string \<Rightarrow> string option" where
  "extract_json_with sc ec text =
     (case py_find [sc] text of
        None \<Rightarrow> None
      | Some start \<Rightarrow> scan_span sc ec (drop start text) 0 0 (drop start text))"

definition extract_json :: "string \<Rightarrow> string" where
  "extract_json text =
     (case extract_json_with CHR ''{'' CHR ''}'' text of
        Some candidate \<Rightarrow> candidate
      | None \<Rightarrow>
         (case extract_json_with CHR ''['' CHR '']'' text of
            Some candidate \<Rightarrow> candidate
          | None \<Rightarrow> []))"

definition extract_context :: "string \<Rightarrow> string \<Rightarrow> string" where
  "extract_context text mode =
     (if mode = ''full'' then text
      else if mode = ''code_only'' then extract_code_blocks text
      else if mode = ''json_only'' then extract_json text
      else text)"

section \<open>The model service and the store\<close>

text \<open>
  \<open>call_llm\<close> sends one chat request to the remote service and returns the text with its
  token counts, cost and latency, or raises \<open>RuntimeError\<close>. The service is the environment
  of the program: \<open>llm env n req\<close> is what the call number \<open>n\<close> of the run returns for the
  request \<open>req\<close>. The requests made so far are kept in the state, so that a call that is not
  made leaves the state as it is. Every exception the program raises or catches on the
  paths modelled here is a \<open>RuntimeError\<close> with its message.
\<close>

datatype exn = RuntimeError string

fun str_exn :: "exn \<Rightarrow> string" where
  "str_exn (RuntimeError m) = m"

record llm_request =
  req_messages :: "(string \<times> string) list"
  req_model :: string
  req_max_tokens :: int
  req_temperature :: rat

record llm_reply =
  reply_content :: string
  reply_input_tokens :: int
  reply_output_tokens :: int
  reply_cost :: rat
  reply_latency_ms :: int

record eval_details =
  rule_passed :: "bool option"
  rule_reason :: "string option"
  llm_judge_passed :: "bool option"
  llm_judge_reason :: "pyval option"

text \<open>The dictionary \<open>evaluate_completion\<close> returns: with the keys \<open>passed\<close>, \<open>details\<close> and
  \<open>error\<close> (always \<open>None\<close>), and \<open>reason\<close> unless the evaluation passed; or with the key
  \<open>error\<close> alone. The details are \<open>None\<close> for the empty dictionary.\<close>

datatype eval_result =
    EvalResult bool "pyval option" "eval_details option"
  | EvalError string

text \<open>\<open>eval_result.get("reason")\<close>.\<close>

fun get_reason :: "eval_result \<Rightarrow> pyval" where
  "get_reason (EvalResult p (Some r) d) = r"
| "get_reason (EvalResult p None d) = PNone"
| "get_reason (EvalError e) = PNone"

text \<open>What the interpreter prints: \<open>repr\<close> of a string, \<open>str\<close> of a value and \<open>str\<close> of a
  result dictionary are parameters, with the service and the regular expression engine.\<close>

record env =
  llm :: "nat \<Rightarrow> llm_request \<Rightarrow> exn + llm_reply"
  re_search :: regex_engine
  repr_str :: "string \<Rightarrow> string"
  str_val :: "pyval \<Rightarrow> string"
  str_result :: "eval_result \<Rightarrow> string"

definition repr_exn :: "env \<Rightarrow> exn \<Rightarrow> string" where
  "repr_exn e x = ''RuntimeError('' @ repr_str e (str_exn x) @ '')''"

text \<open>A value inside an f-string: a string is itself, anything else is printed.\<close>

definition format_val :: "env \<Rightarrow> pyval \<Rightarrow> string" where
  "format_val e v = (case v of PStr s \<Rightarrow> s | _ \<Rightarrow> str_val e v)"

text \<open>The rows of the store (\<open>models.py\<close>). Identifiers are numbers; \<open>uuid.uuid4()\<close> takes
  the next unused one. A time is a number read from a clock that advances at each
  reading. The column \<open>prompt\<close> of a log holds the messages that \<open>str(messages)\<close> prints.
  Two fields of the state are not in the store, they record what the run did: \<open>requests\<close>,
  the requests sent to the service, and \<open>attempts\<close>, the step run and attempt number of
  every call of \<open>_execute_single_step\<close>.\<close>

record workflow_step =
  step_id :: nat
  step_position :: int
  step_name :: string
  prompt_template :: string
  step_model :: string
  max_tokens :: int
  temperature :: rat
  retry_limit :: int
  context_mode :: string
  rule_type :: string
  rule_value :: "string option"
  llm_judge_enabled :: bool
  llm_judge_prompt :: "string option"

record workflow =
  wf_id :: nat
  wf_steps :: "workflow_step list"

record workflow_run =
  run_id :: nat
  run_workflow_id :: nat
  run_status :: string
  run_failure_reason :: "string option"
  run_started_at :: "nat option"
  run_completed_at :: "nat option"

record step_run =
  sr_id :: nat
  sr_workflow_run_id :: nat
  sr_workflow_step_id :: nat
  sr_position :: int
  sr_status :: string
  sr_attempt_number :: int
  sr_input_context :: "string option"
  sr_output :: "string option"
  sr_extracted_context :: "string option"
  sr_evaluation_result :: "eval_result option"
  sr_failure_reason :: "pyval option"
  sr_started_at :: "nat option"
  sr_completed_at :: "nat option"

record llm_log =
  log_id :: nat
  log_step_run_id :: nat
  log_call_type :: string
  log_attempt_number :: int
  log_prompt :: "(string \<times> string) list"
  log_response :: string
  log_input_tokens :: int
  log_output_tokens :: int
  log_total_tokens :: int
  log_cost_usd :: rat
  log_model :: string
  log_latency_ms :: int

record world =
  requests :: "llm_request list"
  attempts :: "(nat \<times> int) list"
  workflows :: "workflow list"
  runs :: "workflow_run list"
  step_runs :: "step_run list"
  llm_logs :: "llm_log list"
  clock :: nat
  next_id :: nat

definition call_llm :: "env \<Rightarrow> llm_request \<Rightarrow> world \<Rightarrow> (exn + llm_reply) \<times> world" where
  "call_llm e req w = (llm e (length (requests w)) req, w\<lparr>requests := requests w @ [req]\<rparr>)"

definition utcnow :: "world \<Rightarrow> nat \<times> world" where
  "utcnow w = (clock w, w\<lparr>clock := Suc (clock w)\<rparr>)"

definition uuid4 :: "world \<Rightarrow> nat \<times> world" where
  "uuid4 w = (next_id w, w\<lparr>next_id := Suc (next_id w)\<rparr>)"

text \<open>A mutated object of the session is written to its row; a new object is a new row.\<close>

definition put_run :: "workflow_run \<Rightarrow> world \<Rightarrow> world" where
  "put_run r w = w\<lparr>runs := map (\<lambda>x. if run_id x = run_id r then r else x) (runs w)\<rparr>"

definition put_step_run :: "step_run \<Rightarrow> world \<Rightarrow> world" where
  "put_step_run r w =
     w\<lparr>step_runs := map (\<lambda>x. if sr_id x = sr_id r then r else x) (step_runs w)\<rparr>"

definition add_step_run :: "step_run \<Rightarrow> world \<Rightarrow> world" where
  "add_step_run r w = w\<lparr>step_runs := step_runs w @ [r]\<rparr>"

definition add_llm_log :: "llm_log \<Rightarrow> world \<Rightarrow> world" where
  "add_llm_log l w = w\<lparr>llm_logs := llm_logs w @ [l]\<rparr>"

section \<open>The completion evaluator (\<open>evaluation.py\<close>)\<close>

definition default_prompt :: string where
  "default_prompt =
     ''Evaluate if the following output meets the expected quality and completeness. ''
     @ ''Respond ONLY in JSON: {\"pass\": true/false, \"reason\": \"...\"}''"

text \<open>The verdict read from the reply of the judge. Inside the \<open>try\<close>, \<open>json.loads\<close> raises
  on a reply that is not JSON and \<open>data.get\<close> raises on a value that is not a dictionary;
  both are caught and answered by the search for \<open>true\<close>.\<close>

definition judge_verdict :: "string \<Rightarrow> bool \<times> pyval" where
  "judge_verdict content =
     (case json_loads content of
        Some (PDict kvs) \<Rightarrow>
          (truthy (dict_get kvs ''pass'' (PBool False)),
           dict_get kvs ''reason'' (PStr ''No reason provided''))
      | _ \<Rightarrow> (py_in ''true'' (lower content), PStr (strip content)))"

text \<open>The request \<open>evaluate_llm_judge\<close> sends: one user message, 512 tokens at most, and the
  default temperature of \<open>call_llm\<close>.\<close>

definition judge_request :: "string \<Rightarrow> string option \<Rightarrow> string \<Rightarrow> llm_request" where
  "judge_request output judge_prompt model =
     (let prompt = (if or_empty judge_prompt \<noteq> [] then or_empty judge_prompt else default_prompt);
          full_prompt = prompt @ [newline, newline] @ ''---'' @ [newline] @ ''Output:''
                        @ [newline] @ output
      in \<lparr>req_messages = [(''user'', full_prompt)], req_model = model,
          req_max_tokens = 512, req_temperature = 7 / 10\<rparr>)"

definition evaluate_llm_judge ::
  "env \<Rightarrow> string \<Rightarrow> string option \<Rightarrow> string \<Rightarrow> world \<Rightarrow> (exn + bool \<times> pyval) \<times> world" where
  "evaluate_llm_judge e output judge_prompt model w =
     (case call_llm e (judge_request output judge_prompt model) w of
        (Inl x, w') \<Rightarrow> (Inl x, w')
      | (Inr reply, w') \<Rightarrow> (Inr (judge_verdict (reply_content reply)), w'))"

definition evaluate_completion ::
  "env \<Rightarrow> string \<Rightarrow> string \<Rightarrow> string option \<Rightarrow> bool \<Rightarrow> string option \<Rightarrow> string \<Rightarrow> world
   \<Rightarrow> (bool \<times> eval_result) \<times> world" where
  "evaluate_completion e output rtype rvalue judge_enabled judge_prompt model w =
     (if output = [] \<or> strip output = [] then
        ((False, EvalResult False (Some (PStr ''LLM output was empty'')) None), w)
      else
        (let (rpassed, rreason) = evaluate_rule (re_search e) rtype rvalue (Some output);
             details = \<lparr>rule_passed = Some rpassed, rule_reason = Some rreason,
                        llm_judge_passed = None, llm_judge_reason = None\<rparr>
         in if \<not> rpassed then
              ((False, EvalResult False (Some (PStr rreason)) (Some details)), w)
            else if judge_enabled then
              (case evaluate_llm_judge e output judge_prompt model w of
                 (Inl x, w') \<Rightarrow> ((False, EvalError (repr_exn e x)), w')
               | (Inr (jpassed, jreason), w') \<Rightarrow>
                   (let details' = details\<lparr>llm_judge_passed := Some jpassed,
                                           llm_judge_reason := Some jreason\<rparr>
                    in if \<not> jpassed then
                         ((False, EvalResult False (Some jreason) (Some details')), w')
                       else ((True, EvalResult True None (Some details')), w')))
            else ((True, EvalResult True None (Some details)), w)))"

section \<open>The cost estimate (\<open>llm_client.py\<close>)\<close>




section \<open>The step executor and the run orchestrator (\<open>executor.py\<close>)\<close>

definition placeholder :: string where
  "placeholder = ''{{context}}''"

definition retry_feedback_template :: "string \<Rightarrow> string" where
  "retry_feedback_template feedback =
     [newline] @ ''---'' @ [newline] @ ''Previous attempt failed. Feedback:'' @ [newline]
     @ feedback @ [newline, newline]
     @ ''Please address the above and try again. Your revised response:'' @ [newline]"

definition build_messages ::
  "string \<Rightarrow> string option \<Rightarrow> string option \<Rightarrow> exn + (string \<times> string) list" where
  "build_messages template context retry_feedback =
     (let prompt = py_replace template placeholder (or_empty context)
      in if py_in placeholder prompt then
           Inl (RuntimeError (''Context placeholder '' @ [CHR 0x27] @ placeholder @ [CHR 0x27]
                              @ '' was not replaced''))
         else
           (let system_content =
                  (if or_empty retry_feedback \<noteq> []
                   then retry_feedback_template (or_empty retry_feedback) else [])
            in Inr ((if system_content \<noteq> [] then [(''system'', system_content)] else [])
                    @ [(''user'', prompt)])))"

definition extract_summary :: "env \<Rightarrow> string \<Rightarrow> string \<Rightarrow> world \<Rightarrow> (exn + string) \<times> world" where
  "extract_summary e text model w =
     (if length text < 500 then (Inr text, w)
      else
        (let req = \<lparr>req_messages =
                      [(''user'',
                        ''Summarize the following in 2-4 sentences, preserving key facts and outputs:''
                        @ [newline, newline] @ text)],
                    req_model = model, req_max_tokens = 256, req_temperature = 7 / 10\<rparr>
         in case call_llm e req w of
              (Inl x, w') \<Rightarrow> (Inl x, w')
            | (Inr reply, w') \<Rightarrow> (Inr (strip (reply_content reply)), w')))"

definition extract_context_async ::
  "env \<Rightarrow> string \<Rightarrow> string \<Rightarrow> string \<Rightarrow> world \<Rightarrow> (exn + string) \<times> world" where
  "extract_context_async e text mode model w =
     (if mode = ''summary'' then extract_summary e text model w
      else (Inr (extract_context text mode), w))"

text \<open>The end of \<open>_execute_single_step\<close>: the fallback to the trimmed output, then the
  context that is returned for the extracted text, or the error.\<close>

definition extraction_failed :: "workflow_step \<Rightarrow> exn" where
  "extraction_failed step =
     RuntimeError (''Context extraction failed for step '' @ [CHR 0x27] @ step_name step
                   @ [CHR 0x27] @ '' (mode='' @ context_mode step @ '')'')"

definition checked_context :: "workflow_step \<Rightarrow> string \<Rightarrow> string \<Rightarrow> exn + string" where
  "checked_context step content extracted0 =
     (let extracted = (if context_mode step \<noteq> ''full'' \<and> strip extracted0 = []
                       then strip content else extracted0)
      in if strip extracted = [] then Inl (extraction_failed step) else Inr extracted)"

definition execute_single_step ::
  "env \<Rightarrow> workflow_step \<Rightarrow> step_run \<Rightarrow> string option \<Rightarrow> string option \<Rightarrow> world
   \<Rightarrow> (exn + string \<times> string \<times> bool \<times> eval_result) \<times> world" where
  "execute_single_step e step sr input_context retry_feedback w0 =
     (let w = w0\<lparr>attempts := attempts w0 @ [(sr_id sr, sr_attempt_number sr)]\<rparr>
      in case build_messages (prompt_template step) input_context retry_feedback of
           Inl x \<Rightarrow> (Inl x, w)
         | Inr messages \<Rightarrow>
            (case call_llm e \<lparr>req_messages = messages, req_model = step_model step,
                              req_max_tokens = max_tokens step,
                              req_temperature = temperature step\<rparr> w of
               (Inl x, w1) \<Rightarrow> (Inl x, w1)
             | (Inr reply, w1) \<Rightarrow>
                (let content = reply_content reply;
                     (lid, w2) = uuid4 w1;
                     w3 = add_llm_log
                            \<lparr>log_id = lid, log_step_run_id = sr_id sr,
                             log_call_type =
                               (if or_empty retry_feedback \<noteq> [] then ''retry'' else ''main''),
                             log_attempt_number = sr_attempt_number sr,
                             log_prompt = messages, log_response = content,
                             log_input_tokens = reply_input_tokens reply,
                             log_output_tokens = reply_output_tokens reply,
                             log_total_tokens =
                               reply_input_tokens reply + reply_output_tokens reply,
                             log_cost_usd = reply_cost reply, log_model = step_model step,
                             log_latency_ms = reply_latency_ms reply\<rparr> w2;
                     ((passed, eval_result), w4) =
                        evaluate_completion e content (rule_type step) (rule_value step)
                          (llm_judge_enabled step) (llm_judge_prompt step) (step_model step) w3
                 in case extract_context_async e content (context_mode step) (step_model step) w4 of
                      (Inl x, w5) \<Rightarrow> (Inl x, w5)
                    | (Inr extracted0, w5) \<Rightarrow>
                       (case checked_context step content extracted0 of
                          Inl x \<Rightarrow> (Inl x, w5)
                        | Inr extracted \<Rightarrow> (Inr (content, extracted, passed, eval_result), w5)))))"

text \<open>\<open>eval_result.get("reason") or str(eval_result)\<close>.\<close>

definition reason_or_str :: "env \<Rightarrow> eval_result \<Rightarrow> pyval" where
  "reason_or_str e r = (if truthy (get_reason r) then get_reason r else PStr (str_result e r))"

text \<open>
  One turn of the \<open>while\<close> loop of a step, entered with the count of retries, the last
  failure reason and the step run. An exception of the attempt is caught and makes a failed
  attempt, whose result is the dictionary with the error alone. A passed attempt leaves the
  loop (\<open>Break\<close>, with the extracted context); a failed one goes on with the next count
  (\<open>Continue\<close>, with the new failure reason).
\<close>

datatype loop_step = Break string step_run world | Continue step_run pyval world

definition loop_body ::
  "env \<Rightarrow> workflow_step \<Rightarrow> string option \<Rightarrow> step_run \<Rightarrow> int \<Rightarrow> pyval \<Rightarrow> world \<Rightarrow> loop_step" where
  "loop_body e step ctx sr retry_count failure_reason w =
     (let sr1 = sr\<lparr>sr_attempt_number := retry_count + 1\<rparr>;
          w1 = put_step_run sr1 w;
          retry_feedback =
            (if retry_count > 0
             then Some (''Attempt '' @ str_of_int retry_count @ '' failed. Reason: ''
                        @ format_val e failure_reason)
             else None);
          (res, w2) = execute_single_step e step sr1 ctx retry_feedback w1;
          failed = (\<lambda>eval_result.
             let sr2 = sr1\<lparr>sr_evaluation_result := Some eval_result\<rparr>
             in Continue sr2 (reason_or_str e eval_result) (put_step_run sr2 w2))
      in case res of
           Inl x \<Rightarrow> failed (EvalError (str_exn x))
         | Inr (output, extracted, passed, eval_result) \<Rightarrow>
             if passed then
               (let (now, w3) = utcnow w2;
                    sr2 = sr1\<lparr>sr_status := ''completed'', sr_output := Some output,
                              sr_extracted_context := Some extracted,
                              sr_evaluation_result := Some eval_result,
                              sr_completed_at := Some now\<rparr>
                in Break extracted sr2 (put_step_run sr2 w3))
             else failed eval_result)"

text \<open>
  The loop \<open>while retry_count <= step.retry_limit\<close>. It returns the extracted context when an
  attempt passed and \<open>None\<close> when the loop ran out, with the step run and the last failure
  reason.
\<close>

function retry_loop ::
  "env \<Rightarrow> workflow_step \<Rightarrow> string option \<Rightarrow> step_run \<Rightarrow> int \<Rightarrow> pyval \<Rightarrow> world
   \<Rightarrow> (string option \<times> step_run \<times> pyval) \<times> world" where
  "retry_loop e step ctx sr retry_count failure_reason w =
     (if retry_count \<le> retry_limit step then
        (case loop_body e step ctx sr retry_count failure_reason w of
           Break extracted sr' w' \<Rightarrow> ((Some extracted, sr', failure_reason), w')
         | Continue sr' failure_reason' w' \<Rightarrow>
             retry_loop e step ctx sr' (retry_count + 1) failure_reason' w')
      else ((None, sr, failure_reason), w))"
  by pat_completeness auto
termination
  by (relation "measure (\<lambda>(e, step, ctx, sr, retry_count, failure_reason, w).
                  nat (retry_limit step + 1 - retry_count))") auto

declare retry_loop.simps [simp del]

text \<open>The \<open>for\<close> loop over the steps, with the run and the accumulated context.\<close>

fun run_steps :: "env \<Rightarrow> workflow_run \<Rightarrow> workflow_step list \<Rightarrow> string option \<Rightarrow> world \<Rightarrow> world" where
  "run_steps e run [] ctx w =
     (let (now, w1) = utcnow w
      in put_run (run\<lparr>run_status := ''completed'', run_completed_at := Some now\<rparr>) w1)"
| "run_steps e run (step # rest) ctx w =
     (let (sid, w1) = uuid4 w;
          (started, w2) = utcnow w1;
          sr = \<lparr>sr_id = sid, sr_workflow_run_id = run_id run, sr_workflow_step_id = step_id step,
                sr_position = step_position step, sr_status = ''running'',
                sr_attempt_number = 1, sr_input_context = ctx, sr_output = None,
                sr_extracted_context = None, sr_evaluation_result = None,
                sr_failure_reason = None, sr_started_at = Some started,
                sr_completed_at = None\<rparr>;
          w3 = add_step_run sr w2;
          ((result, sr', failure_reason), w4) = retry_loop e step ctx sr 0 (PStr []) w3
      in case result of
           Some extracted \<Rightarrow> run_steps e run rest (Some extracted) w4
         | None \<Rightarrow>
            (let (now, w5) = utcnow w4;
                 w6 = put_step_run (sr'\<lparr>sr_status := ''failed'',
                                        sr_failure_reason := Some failure_reason,
                                        sr_completed_at := Some now\<rparr>) w5;
                 (now', w7) = utcnow w6
             in put_run (run\<lparr>run_status := ''failed'',
                             run_failure_reason :=
                               Some (''Step '' @ [CHR 0x27] @ step_name step @ [CHR 0x27]
                                     @ '' failed after '' @ str_of_int (retry_limit step)
                                     @ '' retries: '' @ format_val e failure_reason),
                             run_completed_at := Some now'\<rparr>) w7))"

text \<open>\<open>run_workflow\<close>: the state after the call, and the exception that leaves it, if any
  (a run whose workflow is not in the store fails on \<open>workflow.steps\<close>, before the \<open>try\<close>).\<close>

definition run_workflow :: "env \<Rightarrow> nat \<Rightarrow> world \<Rightarrow> exn option \<times> world" where
  "run_workflow e workflow_run_id w =
     (case find (\<lambda>r. run_id r = workflow_run_id) (runs w) of
        None \<Rightarrow> (None, w)
      | Some run \<Rightarrow>
          if run_status run \<noteq> ''pending'' then (None, w)
          else
            (let (now, w1) = utcnow w;
                 run1 = run\<lparr>run_status := ''running'', run_started_at := Some now\<rparr>;
                 w2 = put_run run1 w1
             in case find (\<lambda>f. wf_id f = run_workflow_id run1) (workflows w2) of
                  None \<Rightarrow>
                    (Some (RuntimeError
                       (''AttributeError: '' @ [CHR 0x27] @ ''NoneType'' @ [CHR 0x27]
                        @ '' object has no attribute '' @ [CHR 0x27] @ ''steps'' @ [CHR 0x27])), w2)
                | Some flow \<Rightarrow>
                    (None, run_steps e run1 (sort_key step_position (wf_steps flow)) None w2)))"

section \<open>A sample environment\<close>

text \<open>For the evaluation of the definitions on concrete inputs: a service that answers every
  request with the same text, or fails every request; a regular expression engine that
  rejects every pattern; printing functions that print nothing; and the empty store.\<close>

definition sample_reply :: "string \<Rightarrow> llm_reply" where
  "sample_reply answer =
     \<lparr>reply_content = answer, reply_input_tokens = 10, reply_output_tokens = 5,
      reply_cost = 0, reply_latency_ms = 1\<rparr>"

definition answering :: "string \<Rightarrow> env" where
  "answering answer =
     \<lparr>llm = (\<lambda>n req. Inr (sample_reply answer)), re_search = (\<lambda>p t. None),
      repr_str = (\<lambda>s. s), str_val = (\<lambda>v. []), str_result = (\<lambda>r. [])\<rparr>"

definition failing :: env where
  "failing =
     \<lparr>llm = (\<lambda>n req. Inl (RuntimeError ''Unbound transport failure after retry'')),
      re_search = (\<lambda>p t. None), repr_str = (\<lambda>s. s), str_val = (\<lambda>v. []),
      str_result = (\<lambda>r. [])\<rparr>"

definition empty_world :: world where
  "empty_world =
     \<lparr>requests = [], attempts = [], workflows = [], runs = [], step_runs = [],
      llm_logs = [], clock = 0, next_id = 0\<rparr>"

definition sample_step :: workflow_step where
  "sample_step =
     \<lparr>step_id = 7, step_position = 1, step_name = ''draft'',
      prompt_template = ''Write about {{context}}'', step_model = ''kimi-k2p5'',
      max_tokens = 100, temperature = 7 / 10, retry_limit = 1, context_mode = ''code_only'',
      rule_type = ''contains'', rule_value = Some ''zzz'', llm_judge_enabled = False,
      llm_judge_prompt = None\<rparr>"

definition sample_step_run :: step_run where
  "sample_step_run =
     \<lparr>sr_id = 100, sr_workflow_run_id = 5, sr_workflow_step_id = 7, sr_position = 1,
      sr_status = ''running'', sr_attempt_number = 1, sr_input_context = None,
      sr_output = None, sr_extracted_context = None, sr_evaluation_result = None,
      sr_failure_reason = None, sr_started_at = Some 0, sr_completed_at = None\<rparr>"

definition sample_run :: "string \<Rightarrow> workflow_run" where
  "sample_run status =
     \<lparr>run_id = 5, run_workflow_id = 3, run_status = status, run_failure_reason = None,
      run_started_at = None, run_completed_at = None\<rparr>"

definition sample_world :: "string \<Rightarrow> world" where
  "sample_world status =
     \<lparr>requests = [], attempts = [],
      workflows = [\<lparr>wf_id = 3, wf_steps = [sample_step]\<rparr>],
      runs = [sample_run status], step_runs = [], llm_logs = [], clock = 0, next_id = 100\<rparr>"

section \<open>Properties of the completion rules\<close>

lemma handlers_keys:
  "map_of (RULE_HANDLERS re) t = None \<longleftrightarrow>
     t \<notin> {''contains'', ''regex'', ''json_valid'', ''code_block_present''}"
  by (simp add: RULE_HANDLERS_def)

text \<open>
  Claim C7. For every rule type outside the set \<open>contains\<close>, \<open>regex\<close>, \<open>json_valid\<close>,
  \<open>code_block_present\<close>, and for every output and rule value, \<open>evaluate_rule\<close> returns the
  verdict \<open>False\<close> with a reason that names the unknown rule type. It returns: the function
  is total, no handler is called and nothing is raised.
\<close>

theorem evaluate_rule_unknown_type:
  "rtype \<notin> {''contains'', ''regex'', ''json_valid'', ''code_block_present''} \<Longrightarrow>
   evaluate_rule re rtype rvalue output = (False, ''Unknown rule type: '' @ rtype)"
  using handlers_keys [of re rtype] by (simp add: evaluate_rule_def)

theorem evaluate_rule_unknown_type_witness:
  "''jsonvalid'' \<notin> {''contains'', ''regex'', ''json_valid'', ''code_block_present''} \<and>
   evaluate_rule (\<lambda>p t. None) ''jsonvalid'' None (Some ''{}'')
     = (False, ''Unknown rule type: jsonvalid'')"
  using evaluate_rule_unknown_type [of "''jsonvalid''" "\<lambda>p t. None" None "Some ''{}''"]
  by simp

lemma py_in_empty: "py_in [] s"
  by (cases s) (simp_all add: py_in_def)

text \<open>
  Claim C10. The empty string is a substring of every string, and still the rule
  \<open>contains\<close> fails when the rule value is empty or \<open>None\<close>, whatever the output; it also
  fails when the output is empty (or \<open>None\<close>), whatever the rule value.
\<close>

theorem contains_rule_empty:
  "py_in [] text \<and>
   ((rvalue = None \<or> rvalue = Some [] \<or> output = None \<or> output = Some []) \<longrightarrow>
      fst (evaluate_rule re ''contains'' rvalue output) = False)"
  by (auto simp: py_in_empty evaluate_rule_def RULE_HANDLERS_def rule_contains_def or_empty_def)

theorem contains_rule_empty_witness:
  "py_in [] ''abc'' \<and> fst (evaluate_rule (\<lambda>p t. None) ''contains'' (Some []) (Some ''abc'')) = False
   \<and> fst (evaluate_rule (\<lambda>p t. None) ''contains'' (Some ''a'') (Some [])) = False
   \<and> fst (evaluate_rule (\<lambda>p t. None) ''contains'' (Some ''a'') (Some ''abc'')) = True"
proof -
  have "fst (evaluate_rule (\<lambda>p t. None) ''contains'' (Some ''a'') (Some ''abc'')) = True"
    by code_simp
  then show ?thesis
    using contains_rule_empty [of "''abc''" "Some []" "Some ''abc''" "\<lambda>p t. None"]
          contains_rule_empty [of "''abc''" "Some ''a''" "Some []" "\<lambda>p t. None"]
    by simp
qed

section \<open>Properties of the evaluator\<close>

lemma blank_iff: "blank s \<longleftrightarrow> (s = [] \<or> strip s = [])"
  by (auto simp: blank_def strip_def lstrip_def rstrip_def)

lemma evaluate_llm_judge_requests:
  "requests (snd (evaluate_llm_judge e output jp m w)) = requests w @ [judge_request output jp m]"
  by (simp add: evaluate_llm_judge_def call_llm_def split: sum.splits)

text \<open>
  Claim C2. \<open>evaluate_completion\<close> decides in a fixed order. An output that is empty or
  whitespace only fails at once, the state unchanged: neither the rule nor the judge has
  run. Otherwise the rule is checked, and when it fails the result is a failure with the
  reason of the rule, the state again unchanged: the judge was not called. When the rule
  passes and the judge is enabled, exactly one request, the request of the judge, is sent;
  a rejection by the judge is a failure with the reason of the judge, an acceptance is a
  success. When the rule passes and the judge is disabled the result is a success and no
  request is sent.
\<close>

theorem evaluate_completion_order:
  "(blank output \<longrightarrow>
      evaluate_completion e output rtype rvalue je jp m w =
        ((False, EvalResult False (Some (PStr ''LLM output was empty'')) None), w)) \<and>
   (\<not> blank output \<and> evaluate_rule (re_search e) rtype rvalue (Some output) = (False, rr) \<longrightarrow>
      evaluate_completion e output rtype rvalue je jp m w =
        ((False, EvalResult False (Some (PStr rr))
                   (Some \<lparr>rule_passed = Some False, rule_reason = Some rr,
                          llm_judge_passed = None, llm_judge_reason = None\<rparr>)), w)) \<and>
   (\<not> blank output \<and> evaluate_rule (re_search e) rtype rvalue (Some output) = (True, rr) \<and> je \<longrightarrow>
      requests (snd (evaluate_completion e output rtype rvalue je jp m w)) =
        requests w @ [judge_request output jp m]) \<and>
   (\<not> blank output \<and> evaluate_rule (re_search e) rtype rvalue (Some output) = (True, rr) \<and> je \<and>
    fst (evaluate_llm_judge e output jp m w) = Inr (False, jr) \<longrightarrow>
      fst (evaluate_completion e output rtype rvalue je jp m w) =
        (False, EvalResult False (Some jr)
                  (Some \<lparr>rule_passed = Some True, rule_reason = Some rr,
                         llm_judge_passed = Some False, llm_judge_reason = Some jr\<rparr>))) \<and>
   (\<not> blank output \<and> evaluate_rule (re_search e) rtype rvalue (Some output) = (True, rr) \<and> je \<and>
    fst (evaluate_llm_judge e output jp m w) = Inr (True, jr) \<longrightarrow>
      fst (evaluate_completion e output rtype rvalue je jp m w) =
        (True, EvalResult True None
                 (Some \<lparr>rule_passed = Some True, rule_reason = Some rr,
                        llm_judge_passed = Some True, llm_judge_reason = Some jr\<rparr>))) \<and>
   (\<not> blank output \<and> evaluate_rule (re_search e) rtype rvalue (Some output) = (True, rr) \<and> \<not> je \<longrightarrow>
      evaluate_completion e output rtype rvalue je jp m w =
        ((True, EvalResult True None
                  (Some \<lparr>rule_passed = Some True, rule_reason = Some rr,
                         llm_judge_passed = None, llm_judge_reason = None\<rparr>)), w))"
proof (intro conjI impI)
  assume "blank output"
  then show "evaluate_completion e output rtype rvalue je jp m w =
        ((False, EvalResult False (Some (PStr ''LLM output was empty'')) None), w)"
    by (auto simp: evaluate_completion_def blank_iff)
next
  assume "\<not> blank output \<and> evaluate_rule (re_search e) rtype rvalue (Some output) = (False, rr)"
  then show "evaluate_completion e output rtype rvalue je jp m w =
        ((False, EvalResult False (Some (PStr rr))
                   (Some \<lparr>rule_passed = Some False, rule_reason = Some rr,
                          llm_judge_passed = None, llm_judge_reason = None\<rparr>)), w)"
    by (simp add: evaluate_completion_def blank_iff)
next
  assume "\<not> blank output \<and> evaluate_rule (re_search e) rtype rvalue (Some output) = (True, rr) \<and> je"
  then show "requests (snd (evaluate_completion e output rtype rvalue je jp m w)) =
        requests w @ [judge_request output jp m]"
    using evaluate_llm_judge_requests [of e "output" jp m w]
    by (auto simp: evaluate_completion_def blank_iff Let_def split: prod.splits sum.splits)
next
  assume "\<not> blank output \<and> evaluate_rule (re_search e) rtype rvalue (Some output) = (True, rr) \<and> je \<and>
    fst (evaluate_llm_judge e output jp m w) = Inr (False, jr)"
  then show "fst (evaluate_completion e output rtype rvalue je jp m w) =
        (False, EvalResult False (Some jr)
                  (Some \<lparr>rule_passed = Some True, rule_reason = Some rr,
                         llm_judge_passed = Some False, llm_judge_reason = Some jr\<rparr>))"
    by (auto simp: evaluate_completion_def blank_iff Let_def split: prod.splits sum.splits)
next
  assume "\<not> blank output \<and> evaluate_rule (re_search e) rtype rvalue (Some output) = (True, rr) \<and> je \<and>
    fst (evaluate_llm_judge e output jp m w) = Inr (True, jr)"
  then show "fst (evaluate_completion e output rtype rvalue je jp m w) =
        (True, EvalResult True None
                 (Some \<lparr>rule_passed = Some True, rule_reason = Some rr,
                        llm_judge_passed = Some True, llm_judge_reason = Some jr\<rparr>))"
    by (auto simp: evaluate_completion_def blank_iff Let_def split: prod.splits sum.splits)
next
  assume "\<not> blank output \<and> evaluate_rule (re_search e) rtype rvalue (Some output) = (True, rr) \<and> \<not> je"
  then show "evaluate_completion e output rtype rvalue je jp m w =
        ((True, EvalResult True None
                  (Some \<lparr>rule_passed = Some True, rule_reason = Some rr,
                         llm_judge_passed = None, llm_judge_reason = None\<rparr>)), w)"
    by (simp add: evaluate_completion_def blank_iff)
qed

text \<open>The case the order above leaves out: the call of the judge raises. The exception is
  caught by \<open>evaluate_completion\<close> and the result is a failure that carries the error alone.\<close>

lemma evaluate_completion_judge_raises:
  "\<not> blank output \<Longrightarrow> fst (evaluate_rule (re_search e) rtype rvalue (Some output)) \<Longrightarrow> je \<Longrightarrow>
   fst (evaluate_llm_judge e output jp m w) = Inl x \<Longrightarrow>
   fst (evaluate_completion e output rtype rvalue je jp m w) = (False, EvalError (repr_exn e x))"
  by (auto simp: evaluate_completion_def blank_iff Let_def split: prod.splits sum.splits)


theorem evaluate_completion_order_witness:
  "evaluate_completion (answering ''no'') ''   '' ''contains'' (Some ''a'') True None ''m'' empty_world
     = ((False, EvalResult False (Some (PStr ''LLM output was empty'')) None), empty_world)
   \<and> snd (evaluate_completion (answering ''no'') ''xyz'' ''contains'' (Some ''a'') True None ''m''
             empty_world) = empty_world
   \<and> fst (fst (evaluate_completion (answering ''no'') ''xyz'' ''contains'' (Some ''a'') True None
                  ''m'' empty_world)) = False
   \<and> requests (snd (evaluate_completion (answering ''no'') ''abc'' ''contains'' (Some ''a'') True
                       None ''m'' empty_world)) = [judge_request ''abc'' None ''m'']
   \<and> fst (fst (evaluate_completion (answering ''no'') ''abc'' ''contains'' (Some ''a'') True None
                  ''m'' empty_world)) = False
   \<and> fst (fst (evaluate_completion (answering ''{\"pass\": true}'') ''abc'' ''contains''
                  (Some ''a'') True None ''m'' empty_world)) = True
   \<and> evaluate_completion (answering ''no'') ''abc'' ''contains'' (Some ''a'') False None ''m''
        empty_world
       = ((True, EvalResult True None
                   (Some \<lparr>rule_passed = Some True,
                          rule_reason = Some (''Rule '' @ [CHR 0x27] @ ''contains'' @ [CHR 0x27]
                                              @ '' passed''),
                          llm_judge_passed = None, llm_judge_reason = None\<rparr>)), empty_world)"
proof -
  let ?no = "answering ''no''" and ?yes = "answering ''{\"pass\": true}''"
  let ?ok = "''Rule '' @ [CHR 0x27] @ ''contains'' @ [CHR 0x27] @ '' passed''"
  let ?ko = "''Rule '' @ [CHR 0x27] @ ''contains'' @ [CHR 0x27] @ '' failed''"
  have b1: "blank ''   ''" and b2: "\<not> blank ''xyz''" and b3: "\<not> blank ''abc''"
    by code_simp+
  have r2: "evaluate_rule (re_search ?no) ''contains'' (Some ''a'') (Some ''xyz'') = (False, ?ko)"
    by code_simp
  have r3: "evaluate_rule (re_search ?no) ''contains'' (Some ''a'') (Some ''abc'') = (True, ?ok)"
    by code_simp
  have r4: "evaluate_rule (re_search ?yes) ''contains'' (Some ''a'') (Some ''abc'') = (True, ?ok)"
    by code_simp
  have j3: "fst (evaluate_llm_judge ?no ''abc'' None ''m'' empty_world) = Inr (False, PStr ''no'')"
    by code_simp
  have j4: "fst (evaluate_llm_judge ?yes ''abc'' None ''m'' empty_world)
              = Inr (True, PStr ''No reason provided'')"
    by code_simp
  have e: "requests empty_world = []"
    by (simp add: empty_world_def)
  note t = evaluate_completion_order
  from t [of "''   ''" ?no "''contains''" "Some ''a''" True None "''m''" empty_world] b1
  have c1: "evaluate_completion ?no ''   '' ''contains'' (Some ''a'') True None ''m'' empty_world
     = ((False, EvalResult False (Some (PStr ''LLM output was empty'')) None), empty_world)"
    by blast
  from t [of "''xyz''" ?no "''contains''" "Some ''a''" True None "''m''" empty_world ?ko] b2 r2
  have c2: "evaluate_completion ?no ''xyz'' ''contains'' (Some ''a'') True None ''m'' empty_world
     = ((False, EvalResult False (Some (PStr ?ko))
                   (Some \<lparr>rule_passed = Some False, rule_reason = Some ?ko,
                          llm_judge_passed = None, llm_judge_reason = None\<rparr>)), empty_world)"
    by blast
  from t [of "''abc''" ?no "''contains''" "Some ''a''" True None "''m''" empty_world ?ok
            "PStr ''no''"] b3 r3 j3
  have c3: "requests (snd (evaluate_completion ?no ''abc'' ''contains'' (Some ''a'') True
                       None ''m'' empty_world)) = requests empty_world @ [judge_request ''abc'' None ''m'']"
    and c3': "fst (evaluate_completion ?no ''abc'' ''contains'' (Some ''a'') True
                       None ''m'' empty_world) = (False, EvalResult False (Some (PStr ''no''))
                  (Some \<lparr>rule_passed = Some True, rule_reason = Some ?ok,
                         llm_judge_passed = Some False, llm_judge_reason = Some (PStr ''no'')\<rparr>))"
    by blast+
  from t [of "''abc''" ?yes "''contains''" "Some ''a''" True None "''m''" empty_world ?ok
            "PStr ''No reason provided''"] b3 r4 j4
  have c4: "fst (evaluate_completion ?yes ''abc'' ''contains'' (Some ''a'') True
                       None ''m'' empty_world) = (True, EvalResult True None
                 (Some \<lparr>rule_passed = Some True, rule_reason = Some ?ok,
                        llm_judge_passed = Some True,
                        llm_judge_reason = Some (PStr ''No reason provided'')\<rparr>))"
    by blast
  from t [of "''abc''" ?no "''contains''" "Some ''a''" False None "''m''" empty_world ?ok] b3 r3
  have c5: "evaluate_completion ?no ''abc'' ''contains'' (Some ''a'') False None ''m'' empty_world
       = ((True, EvalResult True None
                   (Some \<lparr>rule_passed = Some True, rule_reason = Some ?ok,
                          llm_judge_passed = None, llm_judge_reason = None\<rparr>)), empty_world)"
    by blast
  show ?thesis
    by (simp add: c1 c2 c3 c3' c4 c5 e)
qed

text \<open>
  Claim C6. When the reply of the judge does not decode as JSON, \<open>evaluate_llm_judge\<close>
  passes exactly if \<open>true\<close> occurs in the reply put in lower case, and its reason is the
  reply without the whitespace at its ends.
\<close>

theorem judge_fallback:
  assumes "llm e (length (requests w)) (judge_request output jprompt model) = Inr reply"
      and "json_loads (reply_content reply) = None"
  shows "fst (evaluate_llm_judge e output jprompt model w) =
           Inr (py_in ''true'' (lower (reply_content reply)), PStr (strip (reply_content reply)))"
  using assms by (simp add: evaluate_llm_judge_def call_llm_def judge_verdict_def)

theorem judge_fallback_witness:
  "llm (answering ''It is TRUE. '') (length (requests empty_world))
       (judge_request ''out'' None ''m'') = Inr (sample_reply ''It is TRUE. '')
   \<and> json_loads (reply_content (sample_reply ''It is TRUE. '')) = None
   \<and> fst (evaluate_llm_judge (answering ''It is TRUE. '') ''out'' None ''m'' empty_world)
       = Inr (True, PStr ''It is TRUE.'')"
proof -
  have l: "llm (answering ''It is TRUE. '') (length (requests empty_world))
             (judge_request ''out'' None ''m'') = Inr (sample_reply ''It is TRUE. '')"
    by (simp add: answering_def)
  have c: "reply_content (sample_reply ''It is TRUE. '') = ''It is TRUE. ''"
    by (simp add: sample_reply_def)
  have j: "json_loads ''It is TRUE. '' = None"
    by code_simp
  have t: "py_in ''true'' (lower ''It is TRUE. '') = True"
    by code_simp
  have r: "strip ''It is TRUE. '' = ''It is TRUE.''"
    by code_simp
  show ?thesis
    using judge_fallback [of "answering ''It is TRUE. ''" empty_world "''out''" None "''m''"
            "sample_reply ''It is TRUE. ''"] l
    by (simp add: c j t r)
qed

section \<open>Properties of the cost estimate\<close>




section \<open>Properties of strings\<close>

lemma dropWhile_snoc_keeps:
  "\<not> P y \<Longrightarrow> \<exists>zs. dropWhile P (as @ [y]) = zs @ [y]"
  by (induction as) auto

lemma rstrip_idem: "rstrip (rstrip s) = rstrip s"
  unfolding rstrip_def by (simp only: rev_rev_ident dropWhile_idem)

lemma lstrip_rstrip_lstrip: "lstrip (rstrip (lstrip s)) = rstrip (lstrip s)"
proof (cases "lstrip s")
  case Nil
  have "rstrip [] = []" by (simp add: rstrip_def)
  moreover have "lstrip [] = []" by (simp add: lstrip_def)
  ultimately show ?thesis by (simp only: Nil)
next
  case (Cons y ys)
  have "dropWhile py_isspace s \<noteq> []" and "hd (dropWhile py_isspace s) = y"
    using Cons unfolding lstrip_def by simp_all
  with hd_dropWhile [of py_isspace s] have ny: "\<not> py_isspace y"
    by blast
  from dropWhile_snoc_keeps [of py_isspace y "rev ys"] ny
  obtain zs where zs: "dropWhile py_isspace (rev ys @ [y]) = zs @ [y]"
    by blast
  have "rstrip (y # ys) = rev (dropWhile py_isspace (rev ys @ [y]))"
    unfolding rstrip_def by (simp only: rev.simps)
  also have "\<dots> = rev (zs @ [y])"
    by (simp only: zs)
  also have "\<dots> = y # rev zs"
    by simp
  finally have r: "rstrip (y # ys) = y # rev zs" .
  have l: "lstrip (y # rev zs) = y # rev zs"
    unfolding lstrip_def using ny by simp
  show ?thesis
    by (simp only: Cons r l)
qed

lemma strip_strip: "strip (strip s) = strip s"
  unfolding strip_def by (simp only: lstrip_rstrip_lstrip rstrip_idem)

lemma blank_strip: "blank (strip s) = blank s"
  by (simp only: blank_def strip_strip)

section \<open>What the functions do to the store\<close>

text \<open>The evaluator and the extractor change nothing but the list of requests.\<close>

lemma call_llm_snd: "snd (call_llm e req w) = w\<lparr>requests := requests w @ [req]\<rparr>"
  by (simp add: call_llm_def)

lemma evaluate_llm_judge_frame:
  "\<exists>rq. snd (evaluate_llm_judge e out jp m w) = w\<lparr>requests := rq\<rparr>"
  by (auto simp: evaluate_llm_judge_def call_llm_def split: sum.splits)

lemma evaluate_completion_frame:
  "\<exists>rq. snd (evaluate_completion e out rt rv je jp m w) = w\<lparr>requests := rq\<rparr>"
proof -
  have same: "\<exists>rq. w = w\<lparr>requests := rq\<rparr>"
    by (rule exI [of _ "requests w"]) simp
  obtain rq where j: "snd (evaluate_llm_judge e out jp m w) = w\<lparr>requests := rq\<rparr>"
    using evaluate_llm_judge_frame by blast
  show ?thesis
    using same j
    by (auto simp: evaluate_completion_def Let_def split: prod.splits sum.splits)
qed

lemma extract_context_async_frame:
  "\<exists>rq. snd (extract_context_async e text mode m w) = w\<lparr>requests := rq\<rparr>"
proof -
  have same: "\<exists>rq. w = w\<lparr>requests := rq\<rparr>"
    by (rule exI [of _ "requests w"]) simp
  then show ?thesis
    by (auto simp: extract_context_async_def extract_summary_def call_llm_def Let_def
             split: sum.splits)
qed

section \<open>The context an attempt returns\<close>



lemma checked_context_not_blank:
  "checked_context step content x0 = Inr x \<Longrightarrow> \<not> blank x"
  by (cases "context_mode step \<noteq> ''full'' \<and> strip x0 = []";
      cases "strip (strip content) = []"; cases "strip x0 = []")
     (auto simp: checked_context_def blank_def)

text \<open>What one attempt does to the store.\<close>

lemma execute_single_step_effect:
  assumes "execute_single_step e step sr ctx fb w = (res, w')"
  shows "workflows w' = workflows w \<and> runs w' = runs w \<and> step_runs w' = step_runs w
         \<and> clock w' = clock w \<and> next_id w \<le> next_id w'
         \<and> attempts w' = attempts w @ [(sr_id sr, sr_attempt_number sr)]
         \<and> (llm_logs w' = llm_logs w
             \<or> (\<exists>l. llm_logs w' = llm_logs w @ [l] \<and> log_step_run_id l = sr_id sr
                    \<and> log_attempt_number l = sr_attempt_number sr))
         \<and> (\<forall>content extracted passed er.
               res = Inr (content, extracted, passed, er) \<longrightarrow> \<not> blank extracted)"
proof (cases "build_messages (prompt_template step) ctx fb")
  case (Inl x)
  with assms show ?thesis
    by (auto simp: execute_single_step_def Let_def)
next
  case (Inr messages)
  define wa where "wa = w\<lparr>attempts := attempts w @ [(sr_id sr, sr_attempt_number sr)]\<rparr>"
  define req where "req = \<lparr>req_messages = messages, req_model = step_model step,
                           req_max_tokens = max_tokens step, req_temperature = temperature step\<rparr>"
  obtain r w1 where c: "call_llm e req wa = (r, w1)"
    by (metis surj_pair)
  then have w1: "w1 = wa\<lparr>requests := requests wa @ [req]\<rparr>"
    using call_llm_snd [of e req wa] by simp
  show ?thesis
  proof (cases r)
    case (Inl x)
    with assms Inr c w1 show ?thesis
      by (auto simp: execute_single_step_def Let_def wa_def req_def)
  next
    case reply: (Inr reply)
    define l where "l = \<lparr>log_id = next_id w1, log_step_run_id = sr_id sr,
                             log_call_type = (if or_empty fb \<noteq> [] then ''retry'' else ''main''),
                             log_attempt_number = sr_attempt_number sr,
                             log_prompt = messages, log_response = reply_content reply,
                             log_input_tokens = reply_input_tokens reply,
                             log_output_tokens = reply_output_tokens reply,
                             log_total_tokens =
                               reply_input_tokens reply + reply_output_tokens reply,
                             log_cost_usd = reply_cost reply, log_model = step_model step,
                             log_latency_ms = reply_latency_ms reply\<rparr>"
    define w3 where "w3 = add_llm_log l (w1\<lparr>next_id := Suc (next_id w1)\<rparr>)"
    obtain pe w4 where ec: "evaluate_completion e (reply_content reply) (rule_type step)
        (rule_value step) (llm_judge_enabled step) (llm_judge_prompt step) (step_model step) w3
        = (pe, w4)"
      by (metis surj_pair)
    obtain rq4 where w4: "w4 = w3\<lparr>requests := rq4\<rparr>"
      using evaluate_completion_frame [of e "reply_content reply" "rule_type step"
          "rule_value step" "llm_judge_enabled step" "llm_judge_prompt step" "step_model step" w3] ec
      by auto
    obtain x w5 where xc: "extract_context_async e (reply_content reply) (context_mode step)
        (step_model step) w4 = (x, w5)"
      by (metis surj_pair)
    obtain rq5 where w5: "w5 = w4\<lparr>requests := rq5\<rparr>"
      using extract_context_async_frame [of e "reply_content reply" "context_mode step"
          "step_model step" w4] xc
      by auto
    have w': "w' = w5"
      using assms Inr c reply ec xc
      by (auto simp: execute_single_step_def Let_def wa_def [symmetric] req_def [symmetric]
            uuid4_def l_def [symmetric] w3_def [symmetric] split: prod.splits sum.splits)
    have res: "res = (case x of
                        Inl y \<Rightarrow> Inl y
                      | Inr x0 \<Rightarrow>
                         (case checked_context step (reply_content reply) x0 of
                            Inl y \<Rightarrow> Inl y
                          | Inr ex \<Rightarrow> Inr (reply_content reply, ex, fst pe, snd pe)))"
      using assms Inr c reply ec xc
      by (auto simp: execute_single_step_def Let_def wa_def [symmetric] req_def [symmetric]
            uuid4_def l_def [symmetric] w3_def [symmetric] split: prod.splits sum.splits)
    have nb: "\<forall>content extracted passed er.
               res = Inr (content, extracted, passed, er) \<longrightarrow> \<not> blank extracted"
      unfolding res
      by (auto split: sum.splits dest: checked_context_not_blank)
    have store: "workflows w5 = workflows w \<and> runs w5 = runs w \<and> step_runs w5 = step_runs w
         \<and> clock w5 = clock w \<and> next_id w \<le> next_id w5
         \<and> attempts w5 = attempts w @ [(sr_id sr, sr_attempt_number sr)]
         \<and> (llm_logs w5 = llm_logs w
             \<or> (\<exists>l. llm_logs w5 = llm_logs w @ [l] \<and> log_step_run_id l = sr_id sr
                    \<and> log_attempt_number l = sr_attempt_number sr))"
      unfolding w5 w4 w3_def w1 wa_def
      by (simp add: add_llm_log_def l_def)
    show ?thesis
      unfolding w' using store nb by blast
  qed
qed

lemma put_step_run_fields:
  "workflows (put_step_run r w) = workflows w" "runs (put_step_run r w) = runs w"
  "llm_logs (put_step_run r w) = llm_logs w" "attempts (put_step_run r w) = attempts w"
  "clock (put_step_run r w) = clock w" "next_id (put_step_run r w) = next_id w"
  "requests (put_step_run r w) = requests w"
  by (simp_all add: put_step_run_def)

text \<open>What one turn of the loop does.\<close>

lemma loop_body_effect:
  assumes "loop_body e step ctx sr rc fr w = r"
  shows "\<exists>sr' w'.
           ((\<exists>extracted. r = Break extracted sr' w' \<and> \<not> blank extracted
                \<and> sr_extracted_context sr' = Some extracted \<and> sr_status sr' = ''completed'')
            \<or> (\<exists>fr'. r = Continue sr' fr' w'))
           \<and> sr_id sr' = sr_id sr \<and> sr_attempt_number sr' = rc + 1
           \<and> workflows w' = workflows w \<and> runs w' = runs w \<and> next_id w \<le> next_id w'
           \<and> attempts w' = attempts w @ [(sr_id sr, rc + 1)]
           \<and> (llm_logs w' = llm_logs w
               \<or> (\<exists>l. llm_logs w' = llm_logs w @ [l] \<and> log_step_run_id l = sr_id sr
                      \<and> log_attempt_number l = rc + 1))"
proof -
  define sr1 where "sr1 = sr\<lparr>sr_attempt_number := rc + 1\<rparr>"
  define fb where "fb = (if rc > 0
             then Some (''Attempt '' @ str_of_int rc @ '' failed. Reason: '' @ format_val e fr)
             else None)"
  define w1 where "w1 = put_step_run sr1 w"
  obtain res w2 where ex: "execute_single_step e step sr1 ctx fb w1 = (res, w2)"
    by (metis surj_pair)
  have sr1: "sr_id sr1 = sr_id sr" "sr_attempt_number sr1 = rc + 1"
    by (simp_all add: sr1_def)
  from execute_single_step_effect [OF ex]
  have eff: "workflows w2 = workflows w \<and> runs w2 = runs w \<and> next_id w \<le> next_id w2
         \<and> attempts w2 = attempts w @ [(sr_id sr, rc + 1)]
         \<and> (llm_logs w2 = llm_logs w
             \<or> (\<exists>l. llm_logs w2 = llm_logs w @ [l] \<and> log_step_run_id l = sr_id sr
                    \<and> log_attempt_number l = rc + 1))"
    and nb: "\<And>content extracted passed er.
               res = Inr (content, extracted, passed, er) \<Longrightarrow> \<not> blank extracted"
    by (simp_all add: w1_def put_step_run_fields sr1)
  have unfold: "loop_body e step ctx sr rc fr w =
     (case res of
           Inl x \<Rightarrow> Continue (sr1\<lparr>sr_evaluation_result := Some (EvalError (str_exn x))\<rparr>)
                      (reason_or_str e (EvalError (str_exn x)))
                      (put_step_run (sr1\<lparr>sr_evaluation_result := Some (EvalError (str_exn x))\<rparr>) w2)
         | Inr (output, extracted, passed, eval_result) \<Rightarrow>
             if passed then
               Break extracted
                 (sr1\<lparr>sr_status := ''completed'', sr_output := Some output,
                              sr_extracted_context := Some extracted,
                              sr_evaluation_result := Some eval_result,
                              sr_completed_at := Some (clock w2)\<rparr>)
                 (put_step_run
                    (sr1\<lparr>sr_status := ''completed'', sr_output := Some output,
                              sr_extracted_context := Some extracted,
                              sr_evaluation_result := Some eval_result,
                              sr_completed_at := Some (clock w2)\<rparr>)
                    (w2\<lparr>clock := Suc (clock w2)\<rparr>))
             else Continue (sr1\<lparr>sr_evaluation_result := Some eval_result\<rparr>)
                    (reason_or_str e eval_result)
                    (put_step_run (sr1\<lparr>sr_evaluation_result := Some eval_result\<rparr>) w2))"
    using ex
    by (simp add: loop_body_def Let_def sr1_def [symmetric] fb_def [symmetric]
          w1_def [symmetric] utcnow_def split: sum.splits prod.splits)
  show ?thesis
  proof (cases res)
    case (Inl x)
    with unfold assms have "r = Continue (sr1\<lparr>sr_evaluation_result := Some (EvalError (str_exn x))\<rparr>)
                      (reason_or_str e (EvalError (str_exn x)))
                      (put_step_run (sr1\<lparr>sr_evaluation_result := Some (EvalError (str_exn x))\<rparr>) w2)"
      by simp
    with eff sr1 show ?thesis
      by (simp add: put_step_run_fields)
  next
    case (Inr t)
    obtain out extracted passed er where t: "t = (out, extracted, passed, er)"
      by (cases t) auto
    show ?thesis
    proof (cases passed)
      case True
      with unfold assms Inr t have "r = Break extracted
                 (sr1\<lparr>sr_status := ''completed'', sr_output := Some out,
                              sr_extracted_context := Some extracted,
                              sr_evaluation_result := Some er,
                              sr_completed_at := Some (clock w2)\<rparr>)
                 (put_step_run
                    (sr1\<lparr>sr_status := ''completed'', sr_output := Some out,
                              sr_extracted_context := Some extracted,
                              sr_evaluation_result := Some er,
                              sr_completed_at := Some (clock w2)\<rparr>)
                    (w2\<lparr>clock := Suc (clock w2)\<rparr>))"
        by simp
      moreover have "\<not> blank extracted"
        using nb Inr t by blast
      ultimately show ?thesis
        using eff sr1 by (simp add: put_step_run_fields)
    next
      case False
      with unfold assms Inr t have "r = Continue (sr1\<lparr>sr_evaluation_result := Some er\<rparr>)
                    (reason_or_str e er)
                    (put_step_run (sr1\<lparr>sr_evaluation_result := Some er\<rparr>) w2)"
        by simp
      with eff sr1 show ?thesis
        by (simp add: put_step_run_fields)
    qed
  qed
qed

text \<open>What the whole loop does, by induction on the number of turns that are left.\<close>

lemma retry_loop_effect:
  assumes "nat (retry_limit step + 1 - rc) = n"
      and "retry_loop e step ctx sr rc fr w = ((result, sr', fr'), w')"
  shows "\<exists>att new.
           attempts w' = attempts w @ att \<and> llm_logs w' = llm_logs w @ new
           \<and> length new \<le> length att \<and> length att \<le> n
           \<and> (\<forall>a \<in> set att. fst a = sr_id sr)
           \<and> (\<forall>l \<in> set new. log_step_run_id l = sr_id sr)
           \<and> sr_id sr' = sr_id sr
           \<and> workflows w' = workflows w \<and> runs w' = runs w \<and> next_id w \<le> next_id w'
           \<and> (\<forall>x. result = Some x \<longrightarrow>
                  \<not> blank x \<and> sr_extracted_context sr' = Some x \<and> sr_status sr' = ''completed'')"
  using assms
proof (induction n arbitrary: rc sr fr w)
  case 0
  then have "\<not> rc \<le> retry_limit step"
    by simp
  with "0.prems"(2) have "result = None" "sr' = sr" "w' = w"
    by (simp_all add: retry_loop.simps [of e step ctx sr rc fr w])
  then show ?case
    by simp
next
  case (Suc n)
  then have le: "rc \<le> retry_limit step" and n: "nat (retry_limit step + 1 - (rc + 1)) = n"
    by simp_all
  from loop_body_effect [OF refl, of e step ctx sr rc fr w]
  obtain sr1 w1 where
    shape: "(\<exists>extracted. loop_body e step ctx sr rc fr w = Break extracted sr1 w1
                \<and> \<not> blank extracted
                \<and> sr_extracted_context sr1 = Some extracted \<and> sr_status sr1 = ''completed'')
            \<or> (\<exists>fr1. loop_body e step ctx sr rc fr w = Continue sr1 fr1 w1)"
    and id: "sr_id sr1 = sr_id sr"
    and store: "workflows w1 = workflows w" "runs w1 = runs w" "next_id w \<le> next_id w1"
    and att: "attempts w1 = attempts w @ [(sr_id sr, rc + 1)]"
    and logs: "llm_logs w1 = llm_logs w
               \<or> (\<exists>l. llm_logs w1 = llm_logs w @ [l] \<and> log_step_run_id l = sr_id sr
                      \<and> log_attempt_number l = rc + 1)"
    by blast
  have "\<exists>new1. llm_logs w1 = llm_logs w @ new1 \<and> length new1 \<le> 1
           \<and> (\<forall>l \<in> set new1. log_step_run_id l = sr_id sr)"
  proof (rule disjE [OF logs])
    assume "llm_logs w1 = llm_logs w"
    then show ?thesis
      by (intro exI [of _ "[]"]) simp
  next
    assume "\<exists>l. llm_logs w1 = llm_logs w @ [l] \<and> log_step_run_id l = sr_id sr
                      \<and> log_attempt_number l = rc + 1"
    then obtain l where "llm_logs w1 = llm_logs w @ [l]" "log_step_run_id l = sr_id sr"
      by blast
    then show ?thesis
      by (intro exI [of _ "[l]"]) simp
  qed
  then obtain new1 where new1: "llm_logs w1 = llm_logs w @ new1" "length new1 \<le> 1"
      "\<forall>l \<in> set new1. log_step_run_id l = sr_id sr"
    by blast
  from shape show ?case
  proof (elim disjE exE conjE)
    fix extracted
    assume b: "loop_body e step ctx sr rc fr w = Break extracted sr1 w1"
       and nb: "\<not> blank extracted" and x: "sr_extracted_context sr1 = Some extracted"
       and st: "sr_status sr1 = ''completed''"
    with le Suc.prems(2) have "result = Some extracted" "sr' = sr1" "w' = w1"
      by (simp_all add: retry_loop.simps [of e step ctx sr rc fr w])
    with nb x st id store att new1 show ?thesis
      by (intro exI [of _ "[(sr_id sr, rc + 1)]"] exI [of _ new1]) simp
  next
    fix fr1
    assume c: "loop_body e step ctx sr rc fr w = Continue sr1 fr1 w1"
    with le Suc.prems(2) have "retry_loop e step ctx sr1 (rc + 1) fr1 w1 = ((result, sr', fr'), w')"
      by (simp add: retry_loop.simps [of e step ctx sr rc fr w])
    from Suc.IH [OF n this] obtain att2 new2 where
      ih: "attempts w' = attempts w1 @ att2" "llm_logs w' = llm_logs w1 @ new2"
          "length new2 \<le> length att2" "length att2 \<le> n"
          "\<forall>a \<in> set att2. fst a = sr_id sr1" "\<forall>l \<in> set new2. log_step_run_id l = sr_id sr1"
          "sr_id sr' = sr_id sr1" "workflows w' = workflows w1" "runs w' = runs w1"
          "next_id w1 \<le> next_id w'"
          "\<forall>x. result = Some x \<longrightarrow>
                  \<not> blank x \<and> sr_extracted_context sr' = Some x \<and> sr_status sr' = ''completed''"
      by blast
    show ?thesis
    proof (intro exI [of _ "(sr_id sr, rc + 1) # att2"] exI [of _ "new1 @ new2"] conjI)
      show "attempts w' = attempts w @ (sr_id sr, rc + 1) # att2"
        using ih(1) att by simp
      show "llm_logs w' = llm_logs w @ new1 @ new2"
        using ih(2) new1(1) by simp
      show "length (new1 @ new2) \<le> length ((sr_id sr, rc + 1) # att2)"
        using ih(3) new1(2) by simp
      show "length ((sr_id sr, rc + 1) # att2) \<le> Suc n"
        using ih(4) by simp
      show "\<forall>a \<in> set ((sr_id sr, rc + 1) # att2). fst a = sr_id sr"
        using ih(5) id by simp
      show "\<forall>l \<in> set (new1 @ new2). log_step_run_id l = sr_id sr"
        using ih(6) new1(3) id by auto
      show "sr_id sr' = sr_id sr"
        using ih(7) id by simp
      show "workflows w' = workflows w" "runs w' = runs w" "next_id w \<le> next_id w'"
        using ih(8,9,10) store by simp_all
      show "\<forall>x. result = Some x \<longrightarrow>
                  \<not> blank x \<and> sr_extracted_context sr' = Some x \<and> sr_status sr' = ''completed''"
        by (rule ih(11))
    qed
  qed
qed




text \<open>
  Claim C1. An attempt adds at most one row to the log of model calls. The retry loop of
  a step with retry limit \<open>r \<ge> 0\<close>, entered as the orchestrator enters it, makes at most
  \<open>r + 1\<close> attempts, all for the step run of that step, and adds at most as many rows to
  the log as it made attempts, all of them rows of that step run: at most \<open>r + 1\<close> rows.
\<close>

theorem retry_loop_attempts_bound:
  "(execute_single_step e step sr ctx fb w = (res1, w1) \<longrightarrow>
      length (llm_logs w1) \<le> length (llm_logs w) + 1) \<and>
   (0 \<le> retry_limit step \<and> retry_loop e step ctx sr 0 fr w = (res, w') \<longrightarrow>
      (\<exists>att new.
          attempts w' = attempts w @ att \<and> llm_logs w' = llm_logs w @ new
          \<and> int (length att) \<le> retry_limit step + 1 \<and> length new \<le> length att
          \<and> (\<forall>a \<in> set att. fst a = sr_id sr)
          \<and> (\<forall>l \<in> set new. log_step_run_id l = sr_id sr)))"
proof (intro conjI impI)
  assume "execute_single_step e step sr ctx fb w = (res1, w1)"
  from execute_single_step_effect [OF this]
  have "llm_logs w1 = llm_logs w \<or> (\<exists>l. llm_logs w1 = llm_logs w @ [l])"
    by blast
  then show "length (llm_logs w1) \<le> length (llm_logs w) + 1"
    by auto
next
  assume a: "0 \<le> retry_limit step \<and> retry_loop e step ctx sr 0 fr w = (res, w')"
  obtain result sr' fr' where res: "res = (result, sr', fr')"
    by (cases res) auto
  from a res have "retry_loop e step ctx sr 0 fr w = ((result, sr', fr'), w')"
    by simp
  from retry_loop_effect [OF refl this] obtain att new where
    x: "attempts w' = attempts w @ att" "llm_logs w' = llm_logs w @ new"
       "length new \<le> length att" "length att \<le> nat (retry_limit step + 1 - 0)"
       "\<forall>a \<in> set att. fst a = sr_id sr" "\<forall>l \<in> set new. log_step_run_id l = sr_id sr"
    by blast
  from x(4) a have "int (length att) \<le> retry_limit step + 1"
    by linarith
  with x show "\<exists>att new.
          attempts w' = attempts w @ att \<and> llm_logs w' = llm_logs w @ new
          \<and> int (length att) \<le> retry_limit step + 1 \<and> length new \<le> length att
          \<and> (\<forall>a \<in> set att. fst a = sr_id sr)
          \<and> (\<forall>l \<in> set new. log_step_run_id l = sr_id sr)"
    by blast
qed

theorem retry_loop_attempts_bound_witness:
  "0 \<le> retry_limit sample_step
   \<and> attempts (snd (retry_loop (answering ''hello'') sample_step None sample_step_run 0
                      (PStr []) empty_world)) = [(100, 1), (100, 2)]
   \<and> map log_step_run_id
        (llm_logs (snd (retry_loop (answering ''hello'') sample_step None sample_step_run 0
                          (PStr []) empty_world))) = [100, 100]
   \<and> length (llm_logs (snd (execute_single_step (answering ''hello'') sample_step
                               sample_step_run None None empty_world)))
       \<le> length (llm_logs empty_world) + 1
   \<and> (\<exists>att new.
          attempts (snd (retry_loop (answering ''hello'') sample_step None sample_step_run 0
                           (PStr []) empty_world)) = attempts empty_world @ att
          \<and> llm_logs (snd (retry_loop (answering ''hello'') sample_step None sample_step_run 0
                             (PStr []) empty_world)) = llm_logs empty_world @ new
          \<and> int (length att) \<le> retry_limit sample_step + 1 \<and> length new \<le> length att
          \<and> (\<forall>a \<in> set att. fst a = sr_id sample_step_run)
          \<and> (\<forall>l \<in> set new. log_step_run_id l = sr_id sample_step_run))"
proof -
  let ?X = "execute_single_step (answering ''hello'') sample_step sample_step_run None None
              empty_world"
  let ?L = "retry_loop (answering ''hello'') sample_step None sample_step_run 0
              (PStr []) empty_world"
  have r: "0 \<le> retry_limit sample_step"
    by (simp add: sample_step_def)
  have a: "attempts (snd ?L) = [(100, 1), (100, 2)]"
    by code_simp
  have g: "map log_step_run_id (llm_logs (snd ?L)) = [100, 100]"
    by code_simp
  from retry_loop_attempts_bound
         [where e = "answering ''hello''" and step = sample_step and sr = sample_step_run
            and ctx = None and fb = None and w = empty_world and ?res1.0 = "fst ?X"
            and ?w1.0 = "snd ?X" and fr = "PStr []" and res = "fst ?L" and w' = "snd ?L"] r
  have "length (llm_logs (snd ?X)) \<le> length (llm_logs empty_world) + 1
        \<and> (\<exists>att new.
          attempts (snd ?L) = attempts empty_world @ att
          \<and> llm_logs (snd ?L) = llm_logs empty_world @ new
          \<and> int (length att) \<le> retry_limit sample_step + 1 \<and> length new \<le> length att
          \<and> (\<forall>a \<in> set att. fst a = sr_id sample_step_run)
          \<and> (\<forall>l \<in> set new. log_step_run_id l = sr_id sample_step_run))"
    by simp
  with r a g show ?thesis
    by blast
qed

section \<open>The guard of the orchestrator\<close>

lemma find_map_other:
  assumes "\<And>x. run_id (g x) = run_id x" and "\<And>x. run_id x = k \<Longrightarrow> g x = x"
  shows "find (\<lambda>r. run_id r = k) (map g xs) = find (\<lambda>r. run_id r = k) xs"
  using assms by (induction xs) auto

text \<open>The loop over the steps writes the run, and only the run, and leaves it completed
  or failed.\<close>

lemma run_steps_runs:
  "\<exists>run'. run_id run' = run_id run
          \<and> (run_status run' = ''completed'' \<or> run_status run' = ''failed'')
          \<and> runs (run_steps e run steps ctx w) =
              map (\<lambda>x. if run_id x = run_id run then run' else x) (runs w)"
proof (induction steps arbitrary: ctx w)
  case Nil
  show ?case
    by (rule exI [of _ "run\<lparr>run_status := ''completed'', run_completed_at := Some (clock w)\<rparr>"])
       (simp add: utcnow_def put_run_def)
next
  case (Cons step rest)
  define sr where "sr = \<lparr>sr_id = next_id w, sr_workflow_run_id = run_id run,
                sr_workflow_step_id = step_id step,
                sr_position = step_position step, sr_status = ''running'',
                sr_attempt_number = 1, sr_input_context = ctx, sr_output = None,
                sr_extracted_context = None, sr_evaluation_result = None,
                sr_failure_reason = None, sr_started_at = Some (clock w),
                sr_completed_at = None\<rparr>"
  define w3 where "w3 = add_step_run sr (w\<lparr>next_id := Suc (next_id w), clock := Suc (clock w)\<rparr>)"
  obtain result sr' fr w4 where
    loop: "retry_loop e step ctx sr 0 (PStr []) w3 = ((result, sr', fr), w4)"
    by (metis surj_pair)
  from retry_loop_effect [OF refl loop] have "runs w4 = runs w3"
    by blast
  then have r4: "runs w4 = runs w"
    by (simp add: w3_def add_step_run_def)
  show ?case
  proof (cases result)
    case (Some extracted)
    with loop have "run_steps e run (step # rest) ctx w = run_steps e run rest (Some extracted) w4"
      by (simp add: uuid4_def utcnow_def Let_def sr_def [symmetric] w3_def [symmetric])
    with Cons.IH [of "Some extracted" w4] r4 show ?thesis
      by simp
  next
    case None
    define run' where "run' = run\<lparr>run_status := ''failed'',
                             run_failure_reason :=
                               Some (''Step '' @ [CHR 0x27] @ step_name step @ [CHR 0x27]
                                     @ '' failed after '' @ str_of_int (retry_limit step)
                                     @ '' retries: '' @ format_val e fr),
                             run_completed_at := Some (Suc (clock w4))\<rparr>"
    from None loop have "runs (run_steps e run (step # rest) ctx w) =
        map (\<lambda>x. if run_id x = run_id run then run' else x) (runs w4)"
      by (simp add: uuid4_def utcnow_def Let_def sr_def [symmetric] w3_def [symmetric]
            put_run_def put_step_run_def run'_def)
    with r4 show ?thesis
      by (intro exI [of _ run']) (simp add: run'_def)
  qed
qed

text \<open>
  Claim C5. \<open>run_workflow\<close> on an identifier that has no run, or whose run is not
  \<open>pending\<close>, returns at once and leaves the state as it is. So it does for a run that is
  \<open>completed\<close> or \<open>failed\<close>; and a call for any identifier leaves such a run as it is: the
  orchestrator never changes a run that has reached a terminal state.
\<close>

theorem run_workflow_guard:
  "(find (\<lambda>r. run_id r = i) (runs w) = None \<longrightarrow> run_workflow e i w = (None, w)) \<and>
   (find (\<lambda>r. run_id r = i) (runs w) = Some run \<and> run_status run \<noteq> ''pending'' \<longrightarrow>
      run_workflow e i w = (None, w)) \<and>
   (find (\<lambda>r. run_id r = i) (runs w) = Some run \<and>
    (run_status run = ''completed'' \<or> run_status run = ''failed'') \<longrightarrow>
      run_workflow e i w = (None, w) \<and>
      find (\<lambda>r. run_id r = i) (runs (snd (run_workflow e j w))) = Some run)"
proof -
  have c1: "find (\<lambda>r. run_id r = i) (runs w) = None \<longrightarrow> run_workflow e i w = (None, w)"
    by (simp add: run_workflow_def)
  have c2: "run_workflow e i w = (None, w)"
    if "find (\<lambda>r. run_id r = i) (runs w) = Some run" and "run_status run \<noteq> ''pending''"
    for i
    using that by (simp add: run_workflow_def)
  have c3: "find (\<lambda>r. run_id r = i) (runs (snd (run_workflow e j w))) = Some run"
    if f: "find (\<lambda>r. run_id r = i) (runs w) = Some run"
      and t: "run_status run = ''completed'' \<or> run_status run = ''failed''"
  proof (cases "find (\<lambda>r. run_id r = j) (runs w)")
    case None
    with f show ?thesis
      by (simp add: run_workflow_def)
  next
    case (Some other)
    show ?thesis
    proof (cases "run_status other = ''pending''")
      case False
      with Some f show ?thesis
        by (simp add: run_workflow_def)
    next
      case True
      have oj: "run_id other = j"
        using Some by (auto simp: find_Some_iff)
      have ri: "run_id run = i"
        using f by (auto simp: find_Some_iff)
      have ne: "i \<noteq> j"
      proof
        assume "i = j"
        with f Some have "other = run" by simp
        with True t show False by auto
      qed
      define run1 where "run1 = other\<lparr>run_status := ''running'', run_started_at := Some (clock w)\<rparr>"
      define w2 where "w2 = put_run run1 (w\<lparr>clock := Suc (clock w)\<rparr>)"
      have r2: "runs w2 = map (\<lambda>x. if run_id x = j then run1 else x) (runs w)"
        by (simp add: w2_def put_run_def run1_def oj)
      have id1: "run_id run1 = j"
        by (simp add: run1_def oj)
      have f2: "find (\<lambda>r. run_id r = i) (runs w2) = Some run"
        unfolding r2
        using find_map_other [of "\<lambda>x. if run_id x = j then run1 else x" i "runs w"] f ne id1
        by simp
      have unf: "snd (run_workflow e j w) =
          (case find (\<lambda>f. wf_id f = run_workflow_id run1) (workflows w2) of
             None \<Rightarrow> w2
           | Some flow \<Rightarrow> run_steps e run1 (sort_key step_position (wf_steps flow)) None w2)"
        unfolding run_workflow_def run1_def w2_def using Some True
        by (simp add: utcnow_def Let_def split: option.split)
      show ?thesis
      proof (cases "find (\<lambda>f. wf_id f = run_workflow_id run1) (workflows w2)")
        case None
        with unf f2 show ?thesis
          by simp
      next
        case (Some flow)
        define steps where "steps = sort_key step_position (wf_steps flow)"
        from run_steps_runs [of run1 e steps None w2] obtain run' where
          r': "run_id run' = j"
              "runs (run_steps e run1 steps None w2) =
                 map (\<lambda>x. if run_id x = j then run' else x) (runs w2)"
          using id1 by auto
        have "find (\<lambda>r. run_id r = i) (runs (run_steps e run1 steps None w2)) = Some run"
          unfolding r'(2)
          using find_map_other [of "\<lambda>x. if run_id x = j then run' else x" i "runs w2"] f2 ne r'(1)
          by simp
        with Some unf show ?thesis
          by (simp add: steps_def)
      qed
    qed
  qed
  show ?thesis
    using c1 c2 [of i] c3 by auto
qed

theorem run_workflow_guard_witness:
  "find (\<lambda>r. run_id r = 9) (runs (sample_world ''pending'')) = None
   \<and> run_workflow (answering ''x'') 9 (sample_world ''pending'') = (None, sample_world ''pending'')
   \<and> find (\<lambda>r. run_id r = 5) (runs (sample_world ''running'')) = Some (sample_run ''running'')
   \<and> run_workflow (answering ''x'') 5 (sample_world ''running'') = (None, sample_world ''running'')
   \<and> find (\<lambda>r. run_id r = 5) (runs (sample_world ''failed'')) = Some (sample_run ''failed'')
   \<and> run_workflow (answering ''x'') 5 (sample_world ''failed'') = (None, sample_world ''failed'')
   \<and> find (\<lambda>r. run_id r = 5) (runs (snd (run_workflow (answering ''x'') 9 (sample_world ''failed''))))
       = Some (sample_run ''failed'')"
proof -
  have f9: "find (\<lambda>r. run_id r = 9) (runs (sample_world ''pending'')) = None"
    by (simp add: sample_world_def sample_run_def)
  have f5: "find (\<lambda>r. run_id r = 5) (runs (sample_world s)) = Some (sample_run s)" for s
    by (simp add: sample_world_def sample_run_def)
  have s: "run_status (sample_run s) = s" for s
    by (simp add: sample_run_def)
  from run_workflow_guard [of 9 "sample_world ''pending''" "answering ''x''"] f9
  have a: "run_workflow (answering ''x'') 9 (sample_world ''pending'') = (None, sample_world ''pending'')"
    by blast
  from run_workflow_guard [of 5 "sample_world ''running''" "answering ''x''" "sample_run ''running''"]
    f5 [of "''running''"] s [of "''running''"]
  have b: "run_workflow (answering ''x'') 5 (sample_world ''running'') = (None, sample_world ''running'')"
    by simp
  from run_workflow_guard [of 5 "sample_world ''failed''" "answering ''x''" "sample_run ''failed''" 9]
    f5 [of "''failed''"] s [of "''failed''"]
  have c: "run_workflow (answering ''x'') 5 (sample_world ''failed'') = (None, sample_world ''failed'')
           \<and> find (\<lambda>r. run_id r = 5)
                (runs (snd (run_workflow (answering ''x'') 9 (sample_world ''failed''))))
              = Some (sample_run ''failed'')"
    by simp
  from f9 f5 a b c show ?thesis
    by simp
qed

end
